theory Spec2Isabelle
  imports Complex_Main "HOL-Library.List_Lexorder" "HOL-Library.Char_ord"
begin

section \<open>Python values, exceptions and effects\<close>

text \<open>
  The handler in \<^verbatim>\<open>src/cloudformation/lambda_handler.py\<close> moves Python values between an
  API Gateway proxy event, a DynamoDB store, the secrets service and the issue tracker's REST
  interface. Values are modelled by \<open>pyval\<close>: what \<^verbatim>\<open>json.loads\<close> can produce (including
  floats, with the non-finite ones) and what the DynamoDB resource layer returns (numbers arrive
  as \<^verbatim>\<open>Decimal\<close>, which \<^verbatim>\<open>json.dumps\<close> rejects). A dictionary is an association list read
  with \<open>map_of\<close>.

  A Python \<^verbatim>\<open>str\<close> is held as its UTF-8 bytes. A \<^verbatim>\<open>str\<close> of the event can hold a lone
  surrogate (U+D800 to U+DFFF: \<^verbatim>\<open>json.loads\<close> accepts its escape), for which UTF-8 has
  no code; it is held as the three bytes ED, A0..BF, 80..BF of the generalised encoding, and
  \<^verbatim>\<open>encode("utf-8")\<close> raises \<^verbatim>\<open>UnicodeEncodeError\<close> on exactly the strings that hold one.
\<close>

datatype pyfloat = Finite rat | PosInf | NegInf | NaN

datatype pyval =
    PNone
  | PBool bool
  | PInt int
  | PFloat pyfloat
  | PDecimal rat
  | PStr string
  | PList "pyval list"
  | PDict "(string \<times> pyval) list"

type_synonym pydict = "(string \<times> pyval) list"

text \<open>
  Every exception of the model is a subclass of Python's \<^verbatim>\<open>Exception\<close>. \<open>ServiceError\<close> is
  whatever an AWS SDK call raises (a client error, an unreachable endpoint), named by its message.
\<close>

datatype pyexc =
    KeyError string
  | TypeError
  | ValueError
  | AttributeError
  | OverflowError
  | JSONDecodeError
  | ParamValidationError
  | UnicodeEncodeError
  | ServiceError string

text \<open>
  What \<^verbatim>\<open>urllib.request\<close> raises, by the \<^verbatim>\<open>except\<close> clause that catches it: \<^verbatim>\<open>HTTPError\<close>
  (a subclass of \<^verbatim>\<open>URLError\<close>, listed first in the source), \<^verbatim>\<open>URLError\<close>, and any other
  exception (a socket timeout, an unknown URL type, undecodable bytes). urllib raises no
  \<^verbatim>\<open>JSONDecodeError\<close>; that one comes from \<^verbatim>\<open>json.loads\<close> only.
\<close>

datatype http_failure =
    HTTPError int string
  | URLError string
  | OtherException string

text \<open>The text \<^verbatim>\<open>json.dumps\<close> returns is represented by the value it serialises.\<close>

datatype json_text = Dumps pyval

record http_request =
  req_url :: string
  req_data :: "json_text option"
  req_headers :: "(string \<times> string) list"
  req_method :: string

text \<open>
  The reply of \<^verbatim>\<open>get_secret_value\<close> carries either a string or a binary secret. The string
  of a secret is text as the service stores it, without lone surrogates.
\<close>

datatype secret_response = SecretString string | SecretBinary string

text \<open>
  The calls that leave the process, in the order they are made:
  \<^item> \<open>SecretsGet id\<close>: \<^verbatim>\<open>get_secret_value(SecretId=id)\<close>;
  \<^item> \<open>DynamoQuery fwd limit cid proj names\<close>: \<^verbatim>\<open>interactions_table.query\<close> with
    \<^verbatim>\<open>ScanIndexForward\<close>, \<^verbatim>\<open>Limit\<close>, the value compared with \<^verbatim>\<open>customer_id\<close>,
    \<^verbatim>\<open>ProjectionExpression\<close> and \<^verbatim>\<open>ExpressionAttributeNames\<close>;
  \<^item> \<open>DynamoGetItem cid proj\<close>: \<^verbatim>\<open>customer_table.get_item\<close> with the key's \<^verbatim>\<open>customer_id\<close>
    and \<^verbatim>\<open>ProjectionExpression\<close>;
  \<^item> \<open>HttpSend req\<close>: the request built for \<^verbatim>\<open>urllib.request.urlopen\<close> (urllib may refuse it
    before anything is transmitted).
\<close>

datatype effect =
    SecretsGet string
  | DynamoQuery bool int "string option" string "(string \<times> string) list"
  | DynamoGetItem "string option" string
  | HttpSend http_request

text \<open>
  The environment of one invocation: the external services the code calls, the clock, and the
  library functions left abstract.
  \<^item> \<open>urlopen_read req\<close> stands for building the \<^verbatim>\<open>Request\<close>, \<^verbatim>\<open>urlopen\<close>, \<^verbatim>\<open>read()\<close> and
    \<^verbatim>\<open>decode("utf-8")\<close>: the decoded body, or the exception one of these steps raised.
  \<^item> \<open>now_ordinal\<close> is the proleptic Gregorian ordinal of the local date of
    \<^verbatim>\<open>datetime.datetime.now()\<close> (day 1 is 0001-01-01).
  \<^item> \<open>json_loads s\<close> is \<^verbatim>\<open>json.loads(s)\<close>, \<open>None\<close> when it raises \<^verbatim>\<open>JSONDecodeError\<close>.
  \<^item> \<open>int_str s\<close> is \<^verbatim>\<open>int(s)\<close> on a string, \<open>None\<close> when it raises \<^verbatim>\<open>ValueError\<close>.
\<close>

record env =
  get_secret_value :: "string \<Rightarrow> pyexc + secret_response"
  query :: "bool \<Rightarrow> int \<Rightarrow> string option \<Rightarrow> string \<Rightarrow> (string \<times> string) list \<Rightarrow> pyexc + pydict"
  get_item :: "string option \<Rightarrow> string \<Rightarrow> pyexc + pydict"
  urlopen_read :: "http_request \<Rightarrow> http_failure + string"
  now_ordinal :: int
  json_loads :: "string \<Rightarrow> pyval option"
  int_str :: "string \<Rightarrow> int option"

text \<open>
  A computation returns its value or the exception it raised, and the calls it made.
  \<open>bindIO\<close> is sequencing: an exception ends the computation, the calls made so far stay.
\<close>

type_synonym 'a io = "(pyexc + 'a) \<times> effect list"

definition bindE :: "'e + 'a \<Rightarrow> ('a \<Rightarrow> 'e + 'b) \<Rightarrow> 'e + 'b" where
  "bindE m f = (case m of Inl e \<Rightarrow> Inl e | Inr x \<Rightarrow> f x)"

definition pure_io :: "pyexc + 'a \<Rightarrow> 'a io" where
  "pure_io r = (r, [])"

definition bindIO :: "'a io \<Rightarrow> ('a \<Rightarrow> 'b io) \<Rightarrow> 'b io" where
  "bindIO m f =
     (case fst m of
        Inl e \<Rightarrow> (Inl e, snd m)
      | Inr x \<Rightarrow> (fst (f x), snd m @ snd (f x)))"

subsection \<open>Built-in operations\<close>

text \<open>\<^verbatim>\<open>str(x)\<close> inside an f-string, for a query parameter that may be \<^verbatim>\<open>None\<close>.\<close>

definition py_str :: "string option \<Rightarrow> string" where
  "py_str x = (case x of None \<Rightarrow> ''None'' | Some s \<Rightarrow> s)"

definition py_opt :: "string option \<Rightarrow> pyval" where
  "py_opt x = (case x of None \<Rightarrow> PNone | Some s \<Rightarrow> PStr s)"

text \<open>Truth value testing.\<close>

fun py_truthy :: "pyval \<Rightarrow> bool" where
  "py_truthy PNone = False"
| "py_truthy (PBool b) = b"
| "py_truthy (PInt n) = (n \<noteq> 0)"
| "py_truthy (PFloat f) = (f \<noteq> Finite 0)"
| "py_truthy (PDecimal q) = (q \<noteq> 0)"
| "py_truthy (PStr s) = (s \<noteq> [])"
| "py_truthy (PList xs) = (xs \<noteq> [])"
| "py_truthy (PDict kvs) = (kvs \<noteq> [])"

text \<open>\<^verbatim>\<open>x[k]\<close> with a string key: only a dictionary holding the key answers.\<close>

fun py_getitem :: "pyval \<Rightarrow> string \<Rightarrow> pyexc + pyval" where
  "py_getitem (PDict kvs) k = (case map_of kvs k of None \<Rightarrow> Inl (KeyError k) | Some v \<Rightarrow> Inr v)"
| "py_getitem _ k = Inl TypeError"

text \<open>\<^verbatim>\<open>x.get(k, None)\<close>: only a dictionary has the method.\<close>

fun py_get :: "pyval \<Rightarrow> string \<Rightarrow> pyexc + pyval" where
  "py_get (PDict kvs) k = (case map_of kvs k of None \<Rightarrow> Inr PNone | Some v \<Rightarrow> Inr v)"
| "py_get _ k = Inl AttributeError"

text \<open>
  \<^verbatim>\<open>for x in v\<close>: a list yields its elements, a string its characters, a dictionary its keys;
  nothing else is iterable.
\<close>

fun py_iter :: "pyval \<Rightarrow> pyexc + pyval list" where
  "py_iter (PList xs) = Inr xs"
| "py_iter (PStr s) = Inr (map (\<lambda>c. PStr [c]) s)"
| "py_iter (PDict kvs) = Inr (map (\<lambda>kv. PStr (fst kv)) kvs)"
| "py_iter _ = Inl TypeError"

definition trunc_rat :: "rat \<Rightarrow> int" where
  "trunc_rat q = (if 0 \<le> q then \<lfloor>q\<rfloor> else \<lceil>q\<rceil>)"

text \<open>\<^verbatim>\<open>int(x)\<close>.\<close>

fun py_int :: "env \<Rightarrow> pyval \<Rightarrow> pyexc + int" where
  "py_int env PNone = Inl TypeError"
| "py_int env (PBool b) = Inr (if b then 1 else 0)"
| "py_int env (PInt n) = Inr n"
| "py_int env (PFloat (Finite q)) = Inr (trunc_rat q)"
| "py_int env (PFloat NaN) = Inl ValueError"
| "py_int env (PFloat _) = Inl OverflowError"
| "py_int env (PDecimal q) = Inr (trunc_rat q)"
| "py_int env (PStr s) = (case int_str env s of None \<Rightarrow> Inl ValueError | Some n \<Rightarrow> Inr n)"
| "py_int env (PList xs) = Inl TypeError"
| "py_int env (PDict kvs) = Inl TypeError"

text \<open>\<^verbatim>\<open>json.dumps\<close> raises \<^verbatim>\<open>TypeError\<close> on a \<^verbatim>\<open>Decimal\<close>, wherever it sits in the value.\<close>

fun json_serializable :: "pyval \<Rightarrow> bool" where
  "json_serializable (PDecimal q) = False"
| "json_serializable (PList xs) = list_all json_serializable xs"
| "json_serializable (PDict kvs) = list_all (\<lambda>kv. json_serializable (snd kv)) kvs"
| "json_serializable v = True"

text \<open>\<^verbatim>\<open>",".join(names)\<close>.\<close>

fun join_comma :: "string list \<Rightarrow> string" where
  "join_comma [] = []"
| "join_comma [x] = x"
| "join_comma (x # y # ys) = x @ '','' @ join_comma (y # ys)"

text \<open>\<^verbatim>\<open>s.encode("utf-8")\<close>, strict: a lone surrogate cannot be encoded.\<close>

fun has_surrogate :: "string \<Rightarrow> bool" where
  "has_surrogate (a # b # rest) =
     ((of_char a = (237::nat) \<and> (160::nat) \<le> of_char b \<and> of_char b \<le> (191::nat))
      \<or> has_surrogate (b # rest))"
| "has_surrogate [a] = False"
| "has_surrogate [] = False"

definition utf8_encode :: "string \<Rightarrow> pyexc + string" where
  "utf8_encode s = (if has_surrogate s then Inl UnicodeEncodeError else Inr s)"

text \<open>
  \<^verbatim>\<open>urllib.parse.urlencode\<close> of a one-entry dictionary, through \<^verbatim>\<open>quote_plus\<close>: key and value
  are encoded as UTF-8 first; then letters, digits and \<^verbatim>\<open>_.-~\<close> stay, a space becomes \<^verbatim>\<open>+\<close>,
  every other byte becomes \<^verbatim>\<open>%XX\<close> in upper-case hexadecimal.
\<close>

definition hex_digit :: "nat \<Rightarrow> char" where
  "hex_digit n = ''0123456789ABCDEF'' ! (n mod 16)"

definition always_safe :: "char \<Rightarrow> bool" where
  "always_safe c =
     (c \<in> set ''ABCDEFGHIJKLMNOPQRSTUVWXYZabcdefghijklmnopqrstuvwxyz0123456789_.-~'')"

definition quote_char :: "char \<Rightarrow> string" where
  "quote_char c =
     (if always_safe c then [c]
      else if c = CHR '' '' then ''+''
      else [CHR ''%'', hex_digit (of_char c div 16), hex_digit (of_char c)])"

definition quote_plus :: "string \<Rightarrow> string" where
  "quote_plus s = concat (map quote_char s)"

definition urlencode1 :: "string \<Rightarrow> string \<Rightarrow> pyexc + string" where
  "urlencode1 k v =
     bindE (utf8_encode k) (\<lambda>kb.
     bindE (utf8_encode v) (\<lambda>vb. Inr (quote_plus kb @ ''='' @ quote_plus vb)))"

text \<open>\<^verbatim>\<open>base64.b64encode\<close>: three bytes become four characters, the tail is padded with \<^verbatim>\<open>=\<close>.\<close>

definition b64_char :: "nat \<Rightarrow> char" where
  "b64_char n =
     ''ABCDEFGHIJKLMNOPQRSTUVWXYZabcdefghijklmnopqrstuvwxyz0123456789+/'' ! (n mod 64)"

fun b64_groups :: "nat list \<Rightarrow> string" where
  "b64_groups (a # b # c # rest) =
     [b64_char (a div 4), b64_char ((a mod 4) * 16 + b div 16),
      b64_char ((b mod 16) * 4 + c div 64), b64_char c] @ b64_groups rest"
| "b64_groups [a, b] =
     [b64_char (a div 4), b64_char ((a mod 4) * 16 + b div 16),
      b64_char ((b mod 16) * 4), CHR ''='']"
| "b64_groups [a] = [b64_char (a div 4), b64_char ((a mod 4) * 16), CHR ''='', CHR ''='']"
| "b64_groups [] = []"

definition b64encode :: "string \<Rightarrow> string" where
  "b64encode s = b64_groups (map of_char s)"

section \<open>CustomerService\<close>

text \<open>
  \<^verbatim>\<open>get_recent_customer_interactions\<close>: one query, newest first, and the \<^verbatim>\<open>Items\<close> of the
  reply. Every exception of the \<^verbatim>\<open>try\<close> block is logged and raised again as it is, also the
  \<^verbatim>\<open>KeyError\<close> of a reply without \<^verbatim>\<open>Items\<close>.
\<close>

definition get_recent_customer_interactions :: "env \<Rightarrow> string option \<Rightarrow> int \<Rightarrow> pyval io" where
  "get_recent_customer_interactions env customer_id count =
     (case query env False count customer_id ''#interaction_date,notes''
             [(''#interaction_date'', ''date'')] of
        Inl e \<Rightarrow> Inl e
      | Inr response \<Rightarrow> py_getitem (PDict response) ''Items'',
      [DynamoQuery False count customer_id ''#interaction_date,notes''
         [(''#interaction_date'', ''date'')]])"

text \<open>\<^verbatim>\<open>get_customer_details\<close>: one read by key; \<^verbatim>\<open>response.get("Item", None)\<close>.\<close>

definition get_customer_details :: "env \<Rightarrow> string option \<Rightarrow> string list \<Rightarrow> pyval io" where
  "get_customer_details env customer_id args =
     (case get_item env customer_id (join_comma args) of
        Inl e \<Rightarrow> Inl e
      | Inr response \<Rightarrow> py_get (PDict response) ''Item'',
      [DynamoGetItem customer_id (join_comma args)])"

definition get_customer_overview :: "env \<Rightarrow> string option \<Rightarrow> pyval io" where
  "get_customer_overview env customer_id =
     bindIO (get_customer_details env customer_id [''overview''])
       (\<lambda>response.
          if py_truthy response then pure_io (py_getitem response ''overview'')
          else pure_io (Inr (PDict [])))"

definition get_customer_preferences :: "env \<Rightarrow> string option \<Rightarrow> pyval io" where
  "get_customer_preferences env customer_id =
     bindIO (get_customer_details env customer_id [''meetingType'', ''timeofDay'', ''dayOfWeek''])
       (\<lambda>response. pure_io (Inr response))"

section \<open>JiraInteraction\<close>

text \<open>
  \<^verbatim>\<open>get_secret\<close> raises what the service raises; a reply without \<^verbatim>\<open>SecretString\<close> falls off
  the end of the function, which returns \<^verbatim>\<open>None\<close>.
\<close>

definition get_secret :: "env \<Rightarrow> string \<Rightarrow> string option io" where
  "get_secret env secret_name =
     (case get_secret_value env secret_name of
        Inl e \<Rightarrow> Inl e
      | Inr (SecretString s) \<Rightarrow> Inr (Some s)
      | Inr (SecretBinary b) \<Rightarrow> Inr None,
      [SecretsGet secret_name])"

text \<open>The string a reply carries, if any.\<close>

definition secret_str :: "secret_response \<Rightarrow> string option" where
  "secret_str r = (case r of SecretString s \<Rightarrow> Some s | SecretBinary b \<Rightarrow> None)"

record JiraInteraction =
  jira_url :: "string option"
  jira_api_key_arn :: "string option"
  jira_username :: "string option"
  credentials :: string
  headers :: "(string \<times> string) list"

text \<open>
  \<^verbatim>\<open>get_jira_api_key\<close> subscripts the reply with \<^verbatim>\<open>"SecretString"\<close>. A \<^verbatim>\<open>SecretId\<close> of
  \<^verbatim>\<open>None\<close> is refused by the SDK's parameter validation before any call is made.
\<close>

definition get_jira_api_key :: "env \<Rightarrow> string option \<Rightarrow> string io" where
  "get_jira_api_key env arn =
     (case arn of
        None \<Rightarrow> (Inl ParamValidationError, [])
      | Some a \<Rightarrow>
          (case get_secret_value env a of
             Inl e \<Rightarrow> Inl e
           | Inr (SecretString s) \<Rightarrow> Inr s
           | Inr (SecretBinary b) \<Rightarrow> Inl (KeyError ''SecretString''),
           [SecretsGet a]))"

definition JiraInteraction_init :: "env \<Rightarrow> JiraInteraction io" where
  "JiraInteraction_init env =
     bindIO (get_secret env ''JIRA_URL'') (\<lambda>url.
     bindIO (get_secret env ''JIRA_API_KEY_ARN'') (\<lambda>arn.
     bindIO (get_secret env ''JIRA_USER_NAME'') (\<lambda>username.
     bindIO (get_jira_api_key env arn) (\<lambda>api_key.
       let creds = b64encode (py_str username @ '':'' @ api_key) in
       pure_io (Inr \<lparr>jira_url = url, jira_api_key_arn = arn, jira_username = username,
         credentials = creds,
         headers = [(''Accept'', ''application/json''),
                    (''Content-Type'', ''application/json''),
                    (''Authorization'', ''Basic '' @ creds)]\<rparr>)))))"

subsection \<open>Open issues\<close>

text \<open>One entry of \<^verbatim>\<open>open_tasks\<close>, the subscripts in the order the dictionary display evaluates them.\<close>

definition issue_task :: "pyval \<Rightarrow> pyexc + pyval" where
  "issue_task issue =
     bindE (py_getitem issue ''key'') (\<lambda>key.
     bindE (bindE (py_getitem issue ''fields'') (\<lambda>f. py_getitem f ''summary'')) (\<lambda>summary.
     bindE (bindE (bindE (py_getitem issue ''fields'') (\<lambda>f. py_getitem f ''status''))
              (\<lambda>s. py_getitem s ''name'')) (\<lambda>status.
     bindE (bindE (bindE (py_getitem issue ''fields'') (\<lambda>f. py_getitem f ''project''))
              (\<lambda>p. py_getitem p ''name'')) (\<lambda>project.
     bindE (bindE (py_getitem issue ''fields'') (\<lambda>f. py_getitem f ''duedate'')) (\<lambda>duedate.
     bindE (bindE (py_getitem issue ''fields'') (\<lambda>f. py_getitem f ''assignee'')) (\<lambda>a.
     bindE (if py_truthy a then py_getitem a ''displayName'' else Inr (PStr ''None''))
       (\<lambda>assignee.
          Inr (PDict [(''issueKey'', key), (''summary'', summary), (''status'', status),
                      (''project'', project), (''duedate'', duedate),
                      (''assignee'', assignee)]))))))))"

text \<open>The \<^verbatim>\<open>for\<close> loop: \<open>open_tasks\<close> grows by one entry per issue; the first exception ends it.\<close>

fun build_tasks :: "pyval list \<Rightarrow> pyval list \<Rightarrow> pyexc + pyval list" where
  "build_tasks [] open_tasks = Inr open_tasks"
| "build_tasks (issue # rest) open_tasks =
     (case issue_task issue of
        Inl e \<Rightarrow> Inl e
      | Inr task \<Rightarrow> build_tasks rest (open_tasks @ [task]))"

definition parse_issues :: "pyval \<Rightarrow> pyexc + pyval list" where
  "parse_issues response_json =
     bindE (py_getitem response_json ''issues'') (\<lambda>issues.
     bindE (py_iter issues) (\<lambda>xs. build_tasks xs []))"

definition jql :: "string option \<Rightarrow> string" where
  "jql project_id =
     ''project='' @ py_str project_id @
     '' AND issuetype=Task AND status='In Progress' OR status='To Do' order by duedate''"

text \<open>Lines 104, 110 and 113: the request for the encoded query \<open>query_params\<close>.\<close>

definition search_request :: "JiraInteraction \<Rightarrow> string \<Rightarrow> http_request" where
  "search_request self query_params =
     (let search_url = py_str (jira_url self) @ ''/search'';
          full_url = search_url @ ''?'' @ query_params
      in \<lparr>req_url = full_url, req_data = None, req_headers = headers self,
          req_method = ''GET''\<rparr>)"

text \<open>
  \<^verbatim>\<open>get_open_jira_issues\<close>: \<^verbatim>\<open>urlencode\<close> runs in front of the \<^verbatim>\<open>try\<close> block, so its
  \<^verbatim>\<open>UnicodeEncodeError\<close> is not caught. Inside the block each of the four \<^verbatim>\<open>except\<close> clauses
  logs and falls through to \<^verbatim>\<open>return []\<close>; the last one catches the \<^verbatim>\<open>KeyError\<close> and
  \<^verbatim>\<open>TypeError\<close> of the loop.
\<close>

definition get_open_jira_issues :: "env \<Rightarrow> JiraInteraction \<Rightarrow> string option \<Rightarrow> pyval list io" where
  "get_open_jira_issues env self project_id =
     (case urlencode1 ''jql'' (jql project_id) of
        Inl e \<Rightarrow> (Inl e, [])
      | Inr query_params \<Rightarrow>
          (let req = search_request self query_params in
           (case urlopen_read env req of
              Inl (HTTPError code reason) \<Rightarrow> Inr []
            | Inl (URLError reason) \<Rightarrow> Inr []
            | Inl (OtherException msg) \<Rightarrow> Inr []
            | Inr response_data \<Rightarrow>
                (case json_loads env response_data of
                   None \<Rightarrow> Inr []
                 | Some response_json \<Rightarrow>
                     (case parse_issues response_json of
                        Inl e \<Rightarrow> Inr []
                      | Inr open_tasks \<Rightarrow> Inr open_tasks)),
            [HttpSend req])))"

text \<open>
  The tracker's reply and the records made of it, in the spec's words (sections 3, 4.3 and 6):
  the reply lists issues as
  \<^verbatim>\<open>{key, fields: {summary, status: {name}, project: {name}, duedate, assignee: {displayName} | null}}\<close>;
  an issue record has \<open>issueKey\<close>, \<open>summary\<close>, \<open>status\<close>, \<open>project\<close>, \<open>duedate\<close> and
  \<open>assignee\<close>, the display name or the string \<open>None\<close> when the issue is unassigned.
\<close>

record tracker_issue =
  ti_key :: string
  ti_summary :: string
  ti_status :: string
  ti_project :: string
  ti_duedate :: "string option"
  ti_assignee :: "string option"

definition spec_issue_reply :: "tracker_issue \<Rightarrow> pyval" where
  "spec_issue_reply i =
     PDict [(''key'', PStr (ti_key i)),
            (''fields'',
             PDict [(''summary'', PStr (ti_summary i)),
                    (''status'', PDict [(''name'', PStr (ti_status i))]),
                    (''project'', PDict [(''name'', PStr (ti_project i))]),
                    (''duedate'', py_opt (ti_duedate i)),
                    (''assignee'',
                     (case ti_assignee i of
                        None \<Rightarrow> PNone
                      | Some name \<Rightarrow> PDict [(''displayName'', PStr name)]))])]"

definition spec_issue_record :: "tracker_issue \<Rightarrow> pyval" where
  "spec_issue_record i =
     PDict [(''issueKey'', PStr (ti_key i)), (''summary'', PStr (ti_summary i)),
            (''status'', PStr (ti_status i)), (''project'', PStr (ti_project i)),
            (''duedate'', py_opt (ti_duedate i)),
            (''assignee'', PStr (case ti_assignee i of None \<Rightarrow> ''None'' | Some name \<Rightarrow> name))]"

subsection \<open>Due dates\<close>

text \<open>
  \<^verbatim>\<open>datetime.timedelta(weeks=w)\<close> holds \<open>7 * w\<close> days and raises \<^verbatim>\<open>OverflowError\<close> beyond
  999999999 days either way. Adding it to a \<^verbatim>\<open>datetime\<close> moves the date by that many days and
  leaves the time of day alone; a result outside 0001-01-01 .. 9999-12-31 raises
  \<^verbatim>\<open>OverflowError\<close>.
\<close>

definition timedelta_weeks :: "int \<Rightarrow> pyexc + int" where
  "timedelta_weeks weeks =
     (if \<bar>7 * weeks\<bar> \<le> 999999999 then Inr (7 * weeks) else Inl OverflowError)"

definition MAXORDINAL :: int where
  "MAXORDINAL = 3652059"

definition datetime_add :: "int \<Rightarrow> int \<Rightarrow> pyexc + int" where
  "datetime_add ordinal days =
     (if 0 < ordinal + days \<and> ordinal + days \<le> MAXORDINAL then Inr (ordinal + days)
      else Inl OverflowError)"

text \<open>The calendar date of an ordinal, as the \<^verbatim>\<open>datetime\<close> module computes it.\<close>

definition days_before_month :: "int \<Rightarrow> int" where
  "days_before_month m = [0, 0, 31, 59, 90, 120, 151, 181, 212, 243, 273, 304, 334] ! nat m"

definition days_in_month :: "int \<Rightarrow> int" where
  "days_in_month m = [0, 31, 28, 31, 30, 31, 30, 31, 31, 30, 31, 30, 31] ! nat m"

definition month_day :: "int \<Rightarrow> bool \<Rightarrow> int \<times> int" where
  "month_day nd leapyear =
     (let month = (nd + 50) div 32;
          preceding = days_before_month month + (if 2 < month \<and> leapyear then 1 else 0)
      in if nd < preceding
         then (month - 1,
               nd - (preceding - (days_in_month (month - 1)
                       + (if month - 1 = 2 \<and> leapyear then 1 else 0))) + 1)
         else (month, nd - preceding + 1))"

definition ord2ymd :: "int \<Rightarrow> int \<times> int \<times> int" where
  "ord2ymd ordinal =
     (let n = ordinal - 1;
          n400 = n div 146097; na = n mod 146097;
          n100 = na div 36524; nb = na mod 36524;
          n4 = nb div 1461; nc = nb mod 1461;
          n1 = nc div 365; nd = nc mod 365;
          year = n400 * 400 + 1 + n100 * 100 + n4 * 4 + n1
      in if n1 = 4 \<or> n100 = 4 then (year - 1, 12, 31)
         else (year, month_day nd (n1 = 3 \<and> (n4 \<noteq> 24 \<or> n100 = 3))))"

text \<open>
  \<^verbatim>\<open>strftime("%Y-%m-%d")\<close> is the C library's: \<^verbatim>\<open>%Y\<close> writes the year as a decimal number
  without padding (the year 998 is \<^verbatim>\<open>998\<close>), \<^verbatim>\<open>%m\<close> and \<^verbatim>\<open>%d\<close> write two digits.
\<close>

definition digit_char :: "nat \<Rightarrow> char" where
  "digit_char d = ''0123456789'' ! (d mod 10)"

fun dec_digits :: "nat \<Rightarrow> string" where
  "dec_digits n =
     (if n < 10 then [digit_char n] else dec_digits (n div 10) @ [digit_char n])"

definition pad2 :: "nat \<Rightarrow> string" where
  "pad2 n = (if n < 10 then CHR ''0'' # dec_digits n else dec_digits n)"

definition strftime_ymd :: "int \<Rightarrow> string" where
  "strftime_ymd ordinal =
     (case ord2ymd ordinal of
        (y, m, d) \<Rightarrow> dec_digits (nat y) @ ''-'' @ pad2 (nat m) @ ''-'' @ pad2 (nat d))"

text \<open>The shape \<^verbatim>\<open>YYYY-MM-DD\<close>: ten characters, digits around two hyphens.\<close>

definition ymd_shape :: "string \<Rightarrow> bool" where
  "ymd_shape s =
     (length s = 10 \<and> s ! 4 = CHR ''-'' \<and> s ! 7 = CHR ''-''
      \<and> list_all (\<lambda>c. c \<in> set ''0123456789'') (take 4 s @ take 2 (drop 5 s) @ drop 8 s))"

text \<open>The first day of the year 1000, from which on a year has four digits.\<close>

definition ORDINAL_1000 :: int where
  "ORDINAL_1000 = 364878"

definition update_request :: "JiraInteraction \<Rightarrow> string option \<Rightarrow> string \<Rightarrow> http_request" where
  "update_request self issue_key due_date =
     (let update_url = py_str (jira_url self) @ ''/issue/'' @ py_str issue_key;
          update_payload = Dumps (PDict [(''fields'', PDict [(''duedate'', PStr due_date)])])
      in \<lparr>req_url = update_url, req_data = Some update_payload, req_headers = headers self,
          req_method = ''PUT''\<rparr>)"

text \<open>
  \<^verbatim>\<open>update_jira_issue\<close>: the due date is computed before the \<^verbatim>\<open>try\<close> block, so its
  \<^verbatim>\<open>OverflowError\<close> is not caught. Inside the block nothing decodes JSON; the three clauses
  that can fire log and fall through to \<^verbatim>\<open>return {}\<close>.
\<close>

definition update_jira_issue :: "env \<Rightarrow> JiraInteraction \<Rightarrow> string option \<Rightarrow> int \<Rightarrow> pyval io" where
  "update_jira_issue env self issue_key timeline_in_weeks =
     (case bindE (timedelta_weeks timeline_in_weeks) (datetime_add (now_ordinal env)) of
        Inl e \<Rightarrow> (Inl e, [])
      | Inr due \<Rightarrow>
          (let req = update_request self issue_key (strftime_ymd due) in
           (case urlopen_read env req of
              Inl (HTTPError code reason) \<Rightarrow> Inr (PDict [])
            | Inl (URLError reason) \<Rightarrow> Inr (PDict [])
            | Inl (OtherException msg) \<Rightarrow> Inr (PDict [])
            | Inr update_data \<Rightarrow>
                Inr (PDict [(''issueKey'', py_opt issue_key),
                            (''newTimeline'', PInt timeline_in_weeks)]),
            [HttpSend req])))"

section \<open>The request router\<close>

text \<open>
  The event of an API Gateway proxy integration: \<^verbatim>\<open>pathParameters\<close> and
  \<^verbatim>\<open>queryStringParameters\<close> are maps from strings to strings or \<^verbatim>\<open>null\<close> (a request without a
  query string carries \<^verbatim>\<open>null\<close>), \<^verbatim>\<open>body\<close> is a string or absent.
\<close>

record event =
  pathParameters :: "(string \<times> string) list option"
  queryStringParameters :: "(string \<times> string) list option"
  event_body :: "string option"

record request =
  api_path :: string
  customer_id :: "string option"
  count :: "string option"
  project_id :: "string option"
  issue_key :: "string option"
  timeline_in_weeks :: pyval

record response =
  statusCode :: int
  body :: json_text

text \<open>Lines 194 to 203: the path, the four query parameters, the body and its \<^verbatim>\<open>timelineInWeeks\<close>.\<close>

definition parse_request :: "env \<Rightarrow> event \<Rightarrow> pyexc + request" where
  "parse_request env event =
     bindE (case pathParameters event of
              None \<Rightarrow> Inl TypeError
            | Some pp \<Rightarrow>
                (case map_of pp ''proxy'' of
                   None \<Rightarrow> Inl (KeyError ''proxy'')
                 | Some p \<Rightarrow> Inr p)) (\<lambda>path.
     bindE (case queryStringParameters event of
              None \<Rightarrow> Inl AttributeError
            | Some qs \<Rightarrow> Inr qs) (\<lambda>qs.
     bindE (case event_body event of
              None \<Rightarrow> Inr (PDict [])
            | Some b \<Rightarrow>
                if b = [] then Inr (PDict [])
                else (case json_loads env b of
                        None \<Rightarrow> Inl JSONDecodeError
                      | Some v \<Rightarrow> Inr v)) (\<lambda>body_dict.
     bindE (py_get body_dict ''timelineInWeeks'') (\<lambda>timeline.
       Inr \<lparr>api_path = path,
            customer_id = map_of qs ''customerId'',
            count = map_of qs ''count'',
            project_id = map_of qs ''projectId'',
            issue_key = map_of qs ''issueKey'',
            timeline_in_weeks = timeline\<rparr>))))"

text \<open>Lines 212 to 226: the \<^verbatim>\<open>if\<close>/\<^verbatim>\<open>elif\<close> chain, giving \<^verbatim>\<open>response_code\<close> and \<^verbatim>\<open>result\<close>.\<close>

definition dispatch :: "env \<Rightarrow> JiraInteraction \<Rightarrow> request \<Rightarrow> (int \<times> pyval) io" where
  "dispatch env jira_interaction rq =
     (if api_path rq = ''/listRecentInteractions'' then
        bindIO (pure_io (py_int env (py_opt (count rq)))) (\<lambda>n.
        bindIO (get_recent_customer_interactions env (customer_id rq) n) (\<lambda>result.
          pure_io (Inr (200, result))))
      else if api_path rq = ''/getPreferences'' then
        bindIO (get_customer_preferences env (customer_id rq)) (\<lambda>result.
          pure_io (Inr (200, result)))
      else if api_path rq = ''/companyOverview'' then
        bindIO (get_customer_overview env (customer_id rq)) (\<lambda>result.
          pure_io (Inr (200, result)))
      else if api_path rq = ''/getOpenJiraIssues'' then
        bindIO (get_open_jira_issues env jira_interaction (project_id rq)) (\<lambda>result.
          pure_io (Inr (200, PList result)))
      else if api_path rq = ''/updateJiraIssue'' then
        bindIO (pure_io (py_int env (timeline_in_weeks rq))) (\<lambda>weeks.
        bindIO (update_jira_issue env jira_interaction (issue_key rq) weeks) (\<lambda>result.
          pure_io (Inr (200, result))))
      else pure_io (Inr (404, PStr (''Unrecognized api path: '' @ api_path rq))))"

text \<open>Line 228: \<^verbatim>\<open>json.dumps\<close> of the envelope raises \<^verbatim>\<open>TypeError\<close> on a value it cannot write.\<close>

definition json_response :: "int \<Rightarrow> pyval \<Rightarrow> pyexc + response" where
  "json_response response_code result =
     (if json_serializable result
      then Inr \<lparr>statusCode = response_code, body = Dumps (PDict [(''message'', result)])\<rparr>
      else Inl TypeError)"

text \<open>
  \<^verbatim>\<open>lambda_handler\<close>: parse, build the tracker client (the \<^verbatim>\<open>CustomerService\<close> constructor
  only names its two tables and makes no call), dispatch, wrap.
\<close>

definition lambda_handler :: "env \<Rightarrow> event \<Rightarrow> response io" where
  "lambda_handler env event =
     bindIO (pure_io (parse_request env event)) (\<lambda>rq.
     bindIO (JiraInteraction_init env) (\<lambda>jira_interaction.
     bindIO (dispatch env jira_interaction rq) (\<lambda>r.
       pure_io (json_response (fst r) (snd r)))))"

text \<open>
  \<^verbatim>\<open>json.loads\<close> builds its values from dictionaries, lists, strings, numbers, booleans and
  \<^verbatim>\<open>None\<close>, never from a \<^verbatim>\<open>Decimal\<close>: an environment has this property when every value its
  \<open>json_loads\<close> returns can be written by \<^verbatim>\<open>json.dumps\<close>.
\<close>

definition json_env :: "env \<Rightarrow> bool" where
  "json_env env = (\<forall>s v. json_loads env s = Some v \<longrightarrow> json_serializable v)"

definition recognized_paths :: "string list" where
  "recognized_paths =
     [''/listRecentInteractions'', ''/getPreferences'', ''/companyOverview'',
      ''/getOpenJiraIssues'', ''/updateJiraIssue'']"

section \<open>The backing store\<close>

text \<open>
  Modelled from the spec: the customer and interaction store is an external service; the
  source only calls it. Its interface is the one of the spec's sections 3, 4.2 and 6:
  interactions are identified by \<open>(customer_id, date)\<close>, \<open>customer_id\<close> partitions them and
  \<open>date\<close> sorts them; a query is by partition key, sorted by \<open>date\<close> (descending when
  \<^verbatim>\<open>ScanIndexForward\<close> is false), limited to \<^verbatim>\<open>Limit\<close> results and projected on the named
  fields; a read by key returns the named fields of the record, and no \<^verbatim>\<open>Item\<close> when there is
  no record. A \<^verbatim>\<open>Limit\<close> below 1 and a key that is not a string are refused.
\<close>

record interaction_row =
  row_customer_id :: string
  row_date :: string
  row_attrs :: pydict

fun split_comma :: "string \<Rightarrow> string list" where
  "split_comma [] = [[]]"
| "split_comma (c # cs) =
     (if c = CHR '','' then [] # split_comma cs
      else (case split_comma cs of
              [] \<Rightarrow> [[c]]
            | w # ws \<Rightarrow> (c # w) # ws))"

definition projection_names :: "(string \<times> string) list \<Rightarrow> string \<Rightarrow> string list" where
  "projection_names aliases expr =
     map (\<lambda>n. case map_of aliases n of None \<Rightarrow> n | Some a \<Rightarrow> a) (split_comma expr)"

definition project_item :: "string list \<Rightarrow> pydict \<Rightarrow> pydict" where
  "project_item names item = filter (\<lambda>kv. fst kv \<in> set names) item"

definition row_item :: "interaction_row \<Rightarrow> pydict" where
  "row_item r =
     (''customer_id'', PStr (row_customer_id r)) # (''date'', PStr (row_date r)) # row_attrs r"

definition store_query ::
  "interaction_row list \<Rightarrow> bool \<Rightarrow> int \<Rightarrow> string option \<Rightarrow> string \<Rightarrow> (string \<times> string) list
     \<Rightarrow> pyexc + pydict" where
  "store_query tbl forward limit key proj aliases =
     (if limit < 1 then Inl ParamValidationError
      else (case key of
              None \<Rightarrow> Inl (ServiceError ''ValidationException'')
            | Some cid \<Rightarrow>
                (let matching = filter (\<lambda>r. row_customer_id r = cid) tbl;
                     ordered = (if forward then sort_key row_date matching
                                else rev (sort_key row_date matching));
                     page = take (nat limit) ordered;
                     items = map (\<lambda>r. PDict (project_item (projection_names aliases proj)
                                                 (row_item r))) page
                 in Inr [(''Items'', PList items), (''Count'', PInt (int (length items)))])))"

definition store_get_item ::
  "(string \<times> pydict) list \<Rightarrow> string option \<Rightarrow> string \<Rightarrow> pyexc + pydict" where
  "store_get_item tbl key proj =
     (case key of
        None \<Rightarrow> Inl (ServiceError ''ValidationException'')
      | Some cid \<Rightarrow>
          (case map_of tbl cid of
             None \<Rightarrow> Inr [(''ResponseMetadata'', PDict [])]
           | Some item \<Rightarrow>
               Inr [(''Item'', PDict (project_item (projection_names [] proj) item)),
                    (''ResponseMetadata'', PDict [])]))"

text \<open>The date fields of a list of returned items, in order.\<close>

definition item_date :: "pyval \<Rightarrow> string" where
  "item_date item = (case py_getitem item ''date'' of Inr (PStr d) \<Rightarrow> d | _ \<Rightarrow> [])"

definition item_keys :: "pyval \<Rightarrow> string set" where
  "item_keys item = (case item of PDict kvs \<Rightarrow> fst ` set kvs | _ \<Rightarrow> {})"

section \<open>A sample deployment\<close>

text \<open>
  A small environment on which the theorems below are exercised: four secrets, three
  interactions of customer \<open>C1\<close>, two customers, a tracker that answers one search and one
  update, and the first of January 2024 as today's date.
\<close>

definition sample_secrets :: "string \<Rightarrow> pyexc + secret_response" where
  "sample_secrets name =
     (if name = ''JIRA_URL'' then Inr (SecretString ''https://jira.example.com/rest/api/2'')
      else if name = ''JIRA_API_KEY_ARN'' then Inr (SecretString ''arn:jira-key'')
      else if name = ''JIRA_USER_NAME'' then Inr (SecretString ''bot'')
      else if name = ''arn:jira-key'' then Inr (SecretString ''s3cr3t'')
      else Inl (ServiceError ''ResourceNotFoundException''))"

definition sample_interactions :: "interaction_row list" where
  "sample_interactions =
     [\<lparr>row_customer_id = ''C1'', row_date = ''2023-11-02'',
       row_attrs = [(''notes'', PStr ''kickoff''), (''channel'', PStr ''call'')]\<rparr>,
      \<lparr>row_customer_id = ''C2'', row_date = ''2023-12-24'',
       row_attrs = [(''notes'', PStr ''renewal'')]\<rparr>,
      \<lparr>row_customer_id = ''C1'', row_date = ''2023-12-15'',
       row_attrs = [(''notes'', PStr ''demo'')]\<rparr>,
      \<lparr>row_customer_id = ''C1'', row_date = ''2023-09-30'',
       row_attrs = [(''notes'', PStr ''intro'')]\<rparr>]"

definition sample_customers :: "(string \<times> pydict) list" where
  "sample_customers =
     [(''C1'', [(''customer_id'', PStr ''C1''), (''overview'', PStr ''Retail chain''),
               (''meetingType'', PStr ''video''), (''timeofDay'', PStr ''morning''),
               (''dayOfWeek'', PStr ''Tuesday''), (''employees'', PDecimal 1200)]),
      (''C2'', [(''customer_id'', PStr ''C2''), (''meetingType'', PStr ''phone'')])]"

definition sample_issues :: "tracker_issue list" where
  "sample_issues =
     [\<lparr>ti_key = ''CRM-7'', ti_summary = ''Send proposal'', ti_status = ''To Do'',
       ti_project = ''CRM'', ti_duedate = Some ''2024-02-01'', ti_assignee = None\<rparr>,
      \<lparr>ti_key = ''CRM-9'', ti_summary = ''Renew contract'', ti_status = ''In Progress'',
       ti_project = ''CRM'', ti_duedate = None, ti_assignee = Some ''Dana Reyes''\<rparr>]"

definition sample_json_loads :: "string \<Rightarrow> pyval option" where
  "sample_json_loads s =
     (if s = ''{\"timelineInWeeks\": 2}'' then Some (PDict [(''timelineInWeeks'', PInt 2)])
      else if s = ''{\"timelineInWeeks\": 1000000}''
        then Some (PDict [(''timelineInWeeks'', PInt 1000000)])
      else if s = ''{\"issues\": [...]}'' 
        then Some (PDict [(''issues'', PList (map spec_issue_reply sample_issues))])
      else if s = ''{}'' then Some (PDict [])
      else None)"

definition sample_int_str :: "string \<Rightarrow> int option" where
  "sample_int_str s =
     (if s = ''1'' then Some 1 else if s = ''2'' then Some 2 else if s = ''3'' then Some 3
      else None)"

definition sample_tracker :: "http_request \<Rightarrow> http_failure + string" where
  "sample_tracker req =
     (if req_method req = ''GET'' then Inr ''{\"issues\": [...]}''
      else if req_url req = ''https://jira.example.com/rest/api/2/issue/CRM-7'' then Inr ''{}''
      else Inl (HTTPError 404 ''Not Found''))"

definition sample_env :: env where
  "sample_env =
     \<lparr>get_secret_value = sample_secrets,
      query = store_query sample_interactions,
      get_item = store_get_item sample_customers,
      urlopen_read = sample_tracker,
      now_ordinal = 738886,
      json_loads = sample_json_loads,
      int_str = sample_int_str\<rparr>"

definition sample_jira :: JiraInteraction where
  "sample_jira =
     \<lparr>jira_url = Some ''https://jira.example.com/rest/api/2'',
      jira_api_key_arn = Some ''arn:jira-key'',
      jira_username = Some ''bot'',
      credentials = ''Ym90OnMzY3IzdA=='',
      headers = [(''Accept'', ''application/json''),
                 (''Content-Type'', ''application/json''),
                 (''Authorization'', ''Basic Ym90OnMzY3IzdA=='')]\<rparr>"

text \<open>The same secrets, with the tracker URL stored as a binary secret.\<close>

definition binary_url_secrets :: "string \<Rightarrow> pyexc + secret_response" where
  "binary_url_secrets = sample_secrets(''JIRA_URL'' := Inr (SecretBinary ''aHR0cHM6''))"

text \<open>The string that holds the lone surrogate U+D800 and nothing else.\<close>

definition lone_surrogate :: string where
  "lone_surrogate = [char_of (237::nat), char_of (160::nat), char_of (128::nat)]"

text \<open>A secrets service that refuses every call, and a tracker that cannot be reached.\<close>

definition no_secrets :: "string \<Rightarrow> pyexc + secret_response" where
  "no_secrets name = Inl (ServiceError ''AccessDeniedException'')"

definition down_tracker :: "http_request \<Rightarrow> http_failure + string" where
  "down_tracker req = Inl (URLError ''unreachable'')"

section \<open>Properties\<close>

subsection \<open>Sequencing and library facts\<close>


lemma bindE_simps:
  "bindE (Inl e) f = Inl e"
  "bindE (Inr x) f = f x"
  by (simp_all add: bindE_def)

lemma pure_io_simps:
  "fst (pure_io r) = r"
  "snd (pure_io r) = []"
  by (simp_all add: pure_io_def)

lemma fst_bindIO:
  "fst (bindIO m f) = (case fst m of Inl e \<Rightarrow> Inl e | Inr x \<Rightarrow> fst (f x))"
  by (simp add: bindIO_def split: sum.splits)

lemma snd_bindIO:
  "snd (bindIO m f) = (case fst m of Inl e \<Rightarrow> snd m | Inr x \<Rightarrow> snd m @ snd (f x))"
  by (simp add: bindIO_def split: sum.splits)

lemma quote_plus_append: "quote_plus (a @ b) = quote_plus a @ quote_plus b"
  by (simp add: quote_plus_def)

lemma quote_plus_jql_key: "quote_plus ''jql'' = ''jql''"
  by (simp add: quote_plus_def quote_char_def always_safe_def)

lemma quote_plus_project: "quote_plus ''project='' = ''project%3D''"
  by (simp add: quote_plus_def quote_char_def always_safe_def hex_digit_def)

lemma quote_plus_clause:
  "quote_plus '' AND issuetype=Task AND status='In Progress' OR status='To Do' order by duedate''
     = ''+AND+issuetype%3DTask+AND+status%3D%27In+Progress%27+OR+status%3D%27To+Do%27+order+by+duedate''"
  by (simp add: quote_plus_def quote_char_def always_safe_def hex_digit_def)

lemma has_surrogate_prefix:
  "\<forall>c \<in> set p. of_char c \<noteq> (237::nat) \<Longrightarrow> has_surrogate (p @ s) = has_surrogate s"
proof (induction p)
  case Nil
  then show ?case by simp
next
  case (Cons a p)
  then show ?case by (cases "p @ s") auto
qed

lemma has_surrogate_suffix:
  "of_char c < (160::nat) \<Longrightarrow> \<forall>x \<in> set (c # t). of_char x \<noteq> (237::nat)
     \<Longrightarrow> has_surrogate (s @ c # t) = has_surrogate s"
proof (induction s rule: has_surrogate.induct)
  case (1 a b rest)
  then show ?case by simp
next
  case (2 a)
  then show ?case using has_surrogate_prefix [of "c # t" "[]"] by simp
next
  case 3
  then show ?case using has_surrogate_prefix [of "c # t" "[]"] by simp
qed

lemma has_surrogate_jql: "has_surrogate (jql pid) = has_surrogate (py_str pid)"
proof -
  have "has_surrogate (jql pid) = has_surrogate (py_str pid @
      '' AND issuetype=Task AND status='In Progress' OR status='To Do' order by duedate'')"
    unfolding jql_def by (rule has_surrogate_prefix) simp
  also have "\<dots> = has_surrogate (py_str pid)"
    by (rule has_surrogate_suffix [of "CHR '' ''", simplified]) simp
  finally show ?thesis .
qed

lemma urlencode_jql:
  "\<not> has_surrogate (py_str pid)
     \<Longrightarrow> urlencode1 ''jql'' (jql pid) = Inr (''jql='' @ quote_plus (jql pid))"
  "has_surrogate (py_str pid) \<Longrightarrow> urlencode1 ''jql'' (jql pid) = Inl UnicodeEncodeError"
  by (simp_all add: urlencode1_def utf8_encode_def bindE_simps has_surrogate_jql
      quote_plus_jql_key)

lemma quote_plus_jql:
  "quote_plus (jql pid) = ''project%3D'' @ quote_plus (py_str pid) @
     ''+AND+issuetype%3DTask+AND+status%3D%27In+Progress%27+OR+status%3D%27To+Do%27+order+by+duedate''"
  unfolding jql_def quote_plus_append quote_plus_project quote_plus_clause by simp

text \<open>
  Claim C9. For every project id (also an absent one, formatted as \<open>None\<close>) the only request
  \<^verbatim>\<open>get_open_jira_issues\<close> sends is a \<^verbatim>\<open>GET\<close> of \<^verbatim>\<open>{jira_url}/search?jql=...\<close>, where the
  \<^verbatim>\<open>jql\<close> parameter is the URL-encoding of
  \<^verbatim>\<open>project={project_id} AND issuetype=Task AND status='In Progress' OR status='To Do' order by duedate\<close>:
  no parentheses group the two status clauses, so the project and type filters stand in the
  conjunction with \<^verbatim>\<open>status='In Progress'\<close> and the clause \<^verbatim>\<open>status='To Do'\<close> stands alone
  after \<^verbatim>\<open>OR\<close>. A project id that holds a lone surrogate has no URL-encoding: the function
  raises in front of the \<^verbatim>\<open>try\<close> block and sends nothing.
\<close>

theorem get_open_jira_issues_query:
  "(\<not> has_surrogate (py_str pid) \<longrightarrow>
      snd (get_open_jira_issues env self pid) =
        [HttpSend \<lparr>req_url = py_str (jira_url self) @ ''/search?jql='' @
                      quote_plus (''project='' @ py_str pid @
                        '' AND issuetype=Task AND status='In Progress' OR status='To Do' order by duedate''),
                    req_data = None, req_headers = headers self, req_method = ''GET''\<rparr>])
   \<and> req_url (search_request self (''jql='' @ quote_plus (jql pid))) =
       py_str (jira_url self) @ ''/search?jql=project%3D'' @ quote_plus (py_str pid) @
       ''+AND+issuetype%3DTask+AND+status%3D%27In+Progress%27+OR+status%3D%27To+Do%27+order+by+duedate''
   \<and> (has_surrogate (py_str pid) \<longrightarrow>
        get_open_jira_issues env self pid = (Inl UnicodeEncodeError, []))"
proof (intro conjI impI)
  assume "\<not> has_surrogate (py_str pid)"
  then have "snd (get_open_jira_issues env self pid)
      = [HttpSend (search_request self (''jql='' @ quote_plus (jql pid)))]"
    by (simp add: get_open_jira_issues_def urlencode_jql Let_def)
  then show "snd (get_open_jira_issues env self pid) =
        [HttpSend \<lparr>req_url = py_str (jira_url self) @ ''/search?jql='' @
                      quote_plus (''project='' @ py_str pid @
                        '' AND issuetype=Task AND status='In Progress' OR status='To Do' order by duedate''),
                    req_data = None, req_headers = headers self, req_method = ''GET''\<rparr>]"
    by (simp add: search_request_def jql_def Let_def)
next
  show "req_url (search_request self (''jql='' @ quote_plus (jql pid))) =
       py_str (jira_url self) @ ''/search?jql=project%3D'' @ quote_plus (py_str pid) @
       ''+AND+issuetype%3DTask+AND+status%3D%27In+Progress%27+OR+status%3D%27To+Do%27+order+by+duedate''"
    by (simp add: search_request_def quote_plus_jql Let_def)
next
  assume "has_surrogate (py_str pid)"
  then show "get_open_jira_issues env self pid = (Inl UnicodeEncodeError, [])"
    by (simp add: get_open_jira_issues_def urlencode_jql)
qed

lemma has_surrogate_samples:
  "\<not> has_surrogate (py_str (Some ''P1''))" "has_surrogate (py_str (Some lone_surrogate))"
  by (simp_all add: py_str_def lone_surrogate_def)

theorem get_open_jira_issues_query_witness:
  "\<not> has_surrogate (py_str (Some ''P1''))
   \<and> snd (get_open_jira_issues sample_env sample_jira (Some ''P1'')) =
       [HttpSend \<lparr>req_url = ''https://jira.example.com/rest/api/2/search?jql=project%3DP1+AND+issuetype%3DTask+AND+status%3D%27In+Progress%27+OR+status%3D%27To+Do%27+order+by+duedate'',
                   req_data = None, req_headers = headers sample_jira, req_method = ''GET''\<rparr>]
   \<and> has_surrogate (py_str (Some lone_surrogate))
   \<and> get_open_jira_issues sample_env sample_jira (Some lone_surrogate)
       = (Inl UnicodeEncodeError, [])"
proof -
  note t = get_open_jira_issues_query [of "Some ''P1''" sample_env sample_jira]
  note u = get_open_jira_issues_query [of "Some lone_surrogate" sample_env sample_jira]
  have q: "quote_plus (''project='' @ py_str (Some ''P1'') @
      '' AND issuetype=Task AND status='In Progress' OR status='To Do' order by duedate'')
     = ''project%3DP1+AND+issuetype%3DTask+AND+status%3D%27In+Progress%27+OR+status%3D%27To+Do%27+order+by+duedate''"
    using quote_plus_jql [of "Some ''P1''"]
    by (simp add: jql_def py_str_def quote_plus_def quote_char_def always_safe_def)
  from t [THEN conjunct1, rule_format, OF has_surrogate_samples(1)]
  have a: "snd (get_open_jira_issues sample_env sample_jira (Some ''P1'')) =
       [HttpSend \<lparr>req_url = ''https://jira.example.com/rest/api/2/search?jql=project%3DP1+AND+issuetype%3DTask+AND+status%3D%27In+Progress%27+OR+status%3D%27To+Do%27+order+by+duedate'',
                   req_data = None, req_headers = headers sample_jira, req_method = ''GET''\<rparr>]"
    unfolding q by (simp add: sample_jira_def py_str_def)
  from u [THEN conjunct2, THEN conjunct2, rule_format, OF has_surrogate_samples(2)]
  have b: "get_open_jira_issues sample_env sample_jira (Some lone_surrogate)
       = (Inl UnicodeEncodeError, [])" .
  from has_surrogate_samples a b show ?thesis by simp
qed

lemma map_of_project_item:
  "map_of (project_item names kvs) k = (if k \<in> set names then map_of kvs k else None)"
  by (induction kvs) (auto simp: project_item_def)

lemma project_item_empty:
  "map_of kvs k = None \<Longrightarrow> project_item [k] kvs = []"
  by (induction kvs) (auto simp: project_item_def split: if_splits)

lemma project_item_nonempty:
  "map_of kvs k = Some v \<Longrightarrow> project_item [k] kvs \<noteq> []"
  by (induction kvs) (auto simp: project_item_def split: if_splits)

lemma names_overview: "projection_names [] ''overview'' = [''overview'']"
  by (simp add: projection_names_def)

lemma names_preferences:
  "projection_names [] ''meetingType,timeofDay,dayOfWeek'' = [''meetingType'', ''timeofDay'', ''dayOfWeek'']"
  by (simp add: projection_names_def)

lemma names_interactions:
  "projection_names [(''#interaction_date'', ''date'')] ''#interaction_date,notes'' = [''date'', ''notes'']"
  by (simp add: projection_names_def)

text \<open>
  Claim C8. For a customer id with no record in the store \<^verbatim>\<open>get_customer_preferences\<close> returns
  \<^verbatim>\<open>None\<close> (no empty map is substituted); for a customer id with a record it returns the record
  projected on \<open>meetingType\<close>, \<open>timeofDay\<close> and \<open>dayOfWeek\<close>; against any store it returns the
  \<^verbatim>\<open>Item\<close> of the reply as it is, and \<^verbatim>\<open>None\<close> when the reply has none.
\<close>

theorem get_customer_preferences_result:
  "(map_of tbl cid = None \<longrightarrow>
      fst (get_customer_preferences (env\<lparr>get_item := store_get_item tbl\<rparr>) (Some cid)) = Inr PNone)
   \<and> (\<forall>item. map_of tbl cid = Some item \<longrightarrow>
      fst (get_customer_preferences (env\<lparr>get_item := store_get_item tbl\<rparr>) (Some cid))
        = Inr (PDict (project_item [''meetingType'', ''timeofDay'', ''dayOfWeek''] item)))
   \<and> (\<forall>response. get_item env c ''meetingType,timeofDay,dayOfWeek'' = Inr response \<longrightarrow>
      fst (get_customer_preferences env c)
        = Inr (case map_of response ''Item'' of None \<Rightarrow> PNone | Some item \<Rightarrow> item))"
  by (auto simp: get_customer_preferences_def get_customer_details_def fst_bindIO pure_io_simps
      store_get_item_def names_preferences split: option.splits)

theorem get_customer_preferences_result_witness:
  "map_of sample_customers ''C3'' = None
   \<and> fst (get_customer_preferences sample_env (Some ''C3'')) = Inr PNone
   \<and> map_of sample_customers ''C2''
       = Some [(''customer_id'', PStr ''C2''), (''meetingType'', PStr ''phone'')]
   \<and> fst (get_customer_preferences sample_env (Some ''C2''))
       = Inr (PDict [(''meetingType'', PStr ''phone'')])"
proof -
  have e: "sample_env\<lparr>get_item := store_get_item sample_customers\<rparr> = sample_env"
    by (simp add: sample_env_def)
  have a: "map_of sample_customers ''C3'' = None"
    by (simp add: sample_customers_def)
  have b: "map_of sample_customers ''C2''
       = Some [(''customer_id'', PStr ''C2''), (''meetingType'', PStr ''phone'')]"
    by (simp add: sample_customers_def)
  have "fst (get_customer_preferences sample_env (Some ''C3'')) = Inr PNone"
    using get_customer_preferences_result [where tbl = sample_customers and cid = "''C3''"
        and env = sample_env] a e by simp
  moreover have "fst (get_customer_preferences sample_env (Some ''C2''))
       = Inr (PDict [(''meetingType'', PStr ''phone'')])"
    using get_customer_preferences_result [where tbl = sample_customers and cid = "''C2''"
        and env = sample_env] b e by (simp add: project_item_def)
  ultimately show ?thesis using a b by simp
qed


text \<open>
  Claim C5. For a customer id whose record holds an \<open>overview\<close> field,
  \<^verbatim>\<open>get_customer_overview\<close> returns the stored value; for a customer id with no record it
  returns the empty map; a record without the \<open>overview\<close> field gives the empty map as well,
  as if there were no record.
\<close>

theorem get_customer_overview_result:
  "(map_of tbl cid = None \<longrightarrow>
      fst (get_customer_overview (env\<lparr>get_item := store_get_item tbl\<rparr>) (Some cid)) = Inr (PDict []))
   \<and> (\<forall>item v. map_of tbl cid = Some item \<and> map_of item ''overview'' = Some v \<longrightarrow>
      fst (get_customer_overview (env\<lparr>get_item := store_get_item tbl\<rparr>) (Some cid)) = Inr v)
   \<and> (\<forall>item. map_of tbl cid = Some item \<and> map_of item ''overview'' = None \<longrightarrow>
      fst (get_customer_overview (env\<lparr>get_item := store_get_item tbl\<rparr>) (Some cid)) = Inr (PDict []))"
  by (auto simp: get_customer_overview_def get_customer_details_def fst_bindIO pure_io_simps
      store_get_item_def names_overview project_item_empty project_item_nonempty map_of_project_item
      split: option.splits)

theorem get_customer_overview_result_witness:
  "map_of sample_customers ''C3'' = None
   \<and> fst (get_customer_overview sample_env (Some ''C3'')) = Inr (PDict [])
   \<and> map_of sample_customers ''C1'' \<noteq> None
   \<and> fst (get_customer_overview sample_env (Some ''C1'')) = Inr (PStr ''Retail chain'')
   \<and> map_of sample_customers ''C2''
       = Some [(''customer_id'', PStr ''C2''), (''meetingType'', PStr ''phone'')]
   \<and> fst (get_customer_overview sample_env (Some ''C2'')) = Inr (PDict [])"
proof -
  have e: "sample_env\<lparr>get_item := store_get_item sample_customers\<rparr> = sample_env"
    by (simp add: sample_env_def)
  have a: "map_of sample_customers ''C3'' = None"
    by (simp add: sample_customers_def)
  have b: "map_of sample_customers ''C2''
       = Some [(''customer_id'', PStr ''C2''), (''meetingType'', PStr ''phone'')]"
    by (simp add: sample_customers_def)
  have c: "map_of sample_customers ''C1'' = Some (snd (hd sample_customers))
       \<and> map_of (snd (hd sample_customers)) ''overview'' = Some (PStr ''Retail chain'')"
    by (simp add: sample_customers_def)
  have "fst (get_customer_overview sample_env (Some ''C3'')) = Inr (PDict [])"
    using get_customer_overview_result [where tbl = sample_customers and cid = "''C3''"
        and env = sample_env] a e by simp
  moreover have "fst (get_customer_overview sample_env (Some ''C1'')) = Inr (PStr ''Retail chain'')"
    using get_customer_overview_result [where tbl = sample_customers and cid = "''C1''"
        and env = sample_env] c e by simp
  moreover have "fst (get_customer_overview sample_env (Some ''C2'')) = Inr (PDict [])"
    using get_customer_overview_result [where tbl = sample_customers and cid = "''C2''"
        and env = sample_env] b e by simp
  ultimately show ?thesis using a b c by simp
qed

subsection \<open>Recent interactions\<close>

lemma item_date_projected:
  "item_date (PDict (project_item [''date'', ''notes''] (row_item r))) = row_date r"
  by (simp add: item_date_def map_of_project_item row_item_def)

lemma item_keys_projected:
  "item_keys (PDict (project_item names kvs)) \<subseteq> set names"
  by (auto simp: item_keys_def project_item_def)

lemma sorted_rev_take_rev:
  "sorted xs \<Longrightarrow> sorted (rev (take n (rev xs)))"
  by (simp add: rev_take)

lemma store_query_page:
  assumes "0 < n"
  shows "\<exists>page. store_query tbl False n (Some cid) ''#interaction_date,notes''
            [(''#interaction_date'', ''date'')]
          = Inr [(''Items'', PList (map (\<lambda>r. PDict (project_item [''date'', ''notes''] (row_item r))) page)),
                 (''Count'', PInt (int (length page)))]
        \<and> int (length page) \<le> n \<and> sorted (rev (map row_date page))"
proof -
  let ?m = "filter (\<lambda>r. row_customer_id r = cid) tbl"
  let ?page = "take (nat n) (rev (sort_key row_date ?m))"
  have "sorted (rev (map row_date ?page))"
    using sorted_rev_take_rev [of "map row_date (sort_key row_date ?m)" "nat n"]
    by (simp add: rev_map take_map)
  moreover have "int (length ?page) \<le> n" using assms by simp
  ultimately show ?thesis using assms
    by (intro exI [of _ ?page]) (simp add: store_query_def names_interactions Let_def)
qed

text \<open>
  Claim C6. For every customer id and every positive count \<open>n\<close>, against a store with the
  query interface of the spec, \<^verbatim>\<open>get_recent_customer_interactions\<close> returns at most \<open>n\<close>
  records, each with no field other than \<open>date\<close> and \<open>notes\<close>, in non-increasing order of
  \<open>date\<close>; and whatever the store is, an exception of the query is raised again as it is.
\<close>

theorem get_recent_customer_interactions_result:
  "(0 < n \<longrightarrow>
      (\<exists>items. fst (get_recent_customer_interactions (env\<lparr>query := store_query tbl\<rparr>) (Some cid) n)
                 = Inr (PList items)
         \<and> int (length items) \<le> n
         \<and> (\<forall>item \<in> set items. item_keys item \<subseteq> {''date'', ''notes''})
         \<and> sorted (rev (map item_date items))))
   \<and> (\<forall>e. query env False n c ''#interaction_date,notes'' [(''#interaction_date'', ''date'')] = Inl e
        \<longrightarrow> fst (get_recent_customer_interactions env c n) = Inl e)"
proof (intro conjI impI allI)
  assume n: "0 < n"
  from store_query_page [OF n, of tbl cid] obtain page where
    q: "store_query tbl False n (Some cid) ''#interaction_date,notes''
            [(''#interaction_date'', ''date'')]
          = Inr [(''Items'', PList (map (\<lambda>r. PDict (project_item [''date'', ''notes''] (row_item r))) page)),
                 (''Count'', PInt (int (length page)))]"
    and len: "int (length page) \<le> n" and srt: "sorted (rev (map row_date page))"
    by blast
  let ?items = "map (\<lambda>r. PDict (project_item [''date'', ''notes''] (row_item r))) page"
  have "fst (get_recent_customer_interactions (env\<lparr>query := store_query tbl\<rparr>) (Some cid) n)
          = Inr (PList ?items)"
    by (simp add: get_recent_customer_interactions_def q)
  moreover have "int (length ?items) \<le> n" using len by simp
  moreover have "\<forall>item \<in> set ?items. item_keys item \<subseteq> {''date'', ''notes''}"
    using item_keys_projected [of "[''date'', ''notes'']"] by auto
  moreover have m: "map item_date ?items = map row_date page"
    by (simp add: item_date_projected comp_def)
  have "sorted (rev (map item_date ?items))" unfolding m by (rule srt)
  ultimately show "\<exists>items. fst (get_recent_customer_interactions (env\<lparr>query := store_query tbl\<rparr>) (Some cid) n)
                 = Inr (PList items)
         \<and> int (length items) \<le> n
         \<and> (\<forall>item \<in> set items. item_keys item \<subseteq> {''date'', ''notes''})
         \<and> sorted (rev (map item_date items))"
    by blast
next
  fix e
  assume "query env False n c ''#interaction_date,notes'' [(''#interaction_date'', ''date'')] = Inl e"
  then show "fst (get_recent_customer_interactions env c n) = Inl e"
    by (simp add: get_recent_customer_interactions_def)
qed

lemma sample_query_value:
  "fst (get_recent_customer_interactions sample_env (Some ''C1'') 2)
     = Inr (PList [PDict [(''date'', PStr ''2023-12-15''), (''notes'', PStr ''demo'')],
                   PDict [(''date'', PStr ''2023-11-02''), (''notes'', PStr ''kickoff'')]])"
  by (simp add: get_recent_customer_interactions_def sample_env_def store_query_def
      sample_interactions_def names_interactions project_item_def row_item_def Let_def)


theorem get_recent_customer_interactions_result_witness:
  "0 < (2::int)
   \<and> (\<exists>items. fst (get_recent_customer_interactions sample_env (Some ''C1'') 2) = Inr (PList items)
         \<and> int (length items) \<le> 2 \<and> sorted (rev (map item_date items)))
   \<and> fst (get_recent_customer_interactions
            (sample_env\<lparr>query := store_query []\<rparr>) None 2)
       = Inl (ServiceError ''ValidationException'')"
proof -
  have e: "sample_env\<lparr>query := store_query sample_interactions\<rparr> = sample_env"
    by (simp add: sample_env_def)
  have pos: "0 < (2::int)" by simp
  have q: "query (sample_env\<lparr>query := store_query []\<rparr>) False 2 None ''#interaction_date,notes''
             [(''#interaction_date'', ''date'')] = Inl (ServiceError ''ValidationException'')"
    by (simp add: store_query_def)
  have "\<exists>items. fst (get_recent_customer_interactions sample_env (Some ''C1'') 2) = Inr (PList items)
         \<and> int (length items) \<le> 2 \<and> sorted (rev (map item_date items))"
    using get_recent_customer_interactions_result [where n = 2 and tbl = sample_interactions
        and cid = "''C1''" and env = sample_env and c = None] pos
    unfolding e by blast
  moreover have "fst (get_recent_customer_interactions
            (sample_env\<lparr>query := store_query []\<rparr>) None 2)
       = Inl (ServiceError ''ValidationException'')"
    using get_recent_customer_interactions_result [where n = 2
        and env = "sample_env\<lparr>query := store_query []\<rparr>" and c = None] q by blast
  ultimately show ?thesis by simp
qed

subsection \<open>Open issues of the tracker\<close>

lemma build_tasks_Inr:
  "build_tasks xs acc = Inr ts \<longleftrightarrow>
     (\<exists>ts'. ts = acc @ ts' \<and> list_all2 (\<lambda>i t. issue_task i = Inr t) xs ts')"
proof (induction xs arbitrary: acc)
  case Nil
  then show ?case by auto
next
  case (Cons x xs)
  show ?case
  proof (cases "issue_task x")
    case (Inl e)
    then show ?thesis by (auto simp: list_all2_Cons1)
  next
    case (Inr t)
    then show ?thesis by (auto simp: Cons.IH list_all2_Cons1)
  qed
qed

lemma build_tasks_all2:
  "list_all2 (\<lambda>i t. issue_task i = Inr t) xs ts \<Longrightarrow> build_tasks xs [] = Inr ts"
  by (simp add: build_tasks_Inr)

lemma build_tasks_Inl:
  "\<exists>i \<in> set xs. \<exists>e. issue_task i = Inl e \<Longrightarrow> \<exists>e. build_tasks xs acc = Inl e"
proof (induction xs arbitrary: acc)
  case Nil
  then show ?case by simp
next
  case (Cons x xs)
  then show ?case by (cases "issue_task x") auto
qed

lemma parse_issues_list:
  "py_getitem j ''issues'' = Inr (PList issues) \<Longrightarrow> parse_issues j = build_tasks issues []"
  by (simp add: parse_issues_def bindE_simps)

lemma get_open_jira_issues_cases:
  "\<not> has_surrogate (py_str pid) \<Longrightarrow>
   fst (get_open_jira_issues env self pid) =
     (case urlopen_read env (search_request self (''jql='' @ quote_plus (jql pid))) of
        Inl f \<Rightarrow> Inr []
      | Inr data \<Rightarrow>
          (case json_loads env data of
             None \<Rightarrow> Inr []
           | Some j \<Rightarrow> (case parse_issues j of Inl e \<Rightarrow> Inr [] | Inr ts \<Rightarrow> Inr ts)))"
  by (simp add: get_open_jira_issues_def urlencode_jql Let_def
      split: sum.splits http_failure.splits option.splits)

lemma get_open_jira_issues_unencodable:
  "has_surrogate (py_str pid) \<Longrightarrow> get_open_jira_issues env self pid = (Inl UnicodeEncodeError, [])"
  by (simp add: get_open_jira_issues_def urlencode_jql)

lemma bindE_Inr_iff: "bindE m f = Inr y \<longleftrightarrow> (\<exists>x. m = Inr x \<and> f x = Inr y)"
  by (cases m) (simp_all add: bindE_simps)

lemma issue_task_assignee:
  assumes "issue_task issue = Inr t"
  shows "\<exists>fields a. py_getitem issue ''fields'' = Inr fields
           \<and> py_getitem fields ''assignee'' = Inr a
           \<and> py_getitem t ''assignee'' =
               (if py_truthy a then py_getitem a ''displayName'' else Inr (PStr ''None''))"
  using assms unfolding issue_task_def bindE_Inr_iff
  by (auto split: if_splits)

lemma issue_task_spec: "issue_task (spec_issue_reply i) = Inr (spec_issue_record i)"
  by (cases "ti_assignee i")
    (simp_all add: issue_task_def spec_issue_reply_def spec_issue_record_def bindE_simps)

lemma parse_issues_spec:
  assumes "py_getitem j ''issues'' = Inr (PList (map spec_issue_reply issues))"
  shows "parse_issues j = Inr (map spec_issue_record issues)"
proof -
  have "list_all2 (\<lambda>i t. issue_task i = Inr t)
      (map spec_issue_reply issues) (map spec_issue_record issues)"
    by (simp add: list_all2_map1 list_all2_map2 issue_task_spec list_all2_same)
  then have "build_tasks (map spec_issue_reply issues) [] = Inr (map spec_issue_record issues)"
    by (rule build_tasks_all2)
  with assms show ?thesis by (simp add: parse_issues_list)
qed

lemma open_issues_returns:
  "\<not> has_surrogate (py_str pid) \<Longrightarrow> \<exists>tasks. fst (get_open_jira_issues env self pid) = Inr tasks"
  by (simp add: get_open_jira_issues_cases split: sum.splits option.splits)

lemma open_issues_http_failure:
  "\<not> has_surrogate (py_str pid) \<Longrightarrow> fst (get_open_jira_issues env self pid) = Inr tasks
     \<Longrightarrow> urlopen_read env (search_request self (''jql='' @ quote_plus (jql pid))) = Inl f
     \<Longrightarrow> tasks = []"
  by (simp add: get_open_jira_issues_cases)

lemma open_issues_not_json:
  "\<not> has_surrogate (py_str pid) \<Longrightarrow> fst (get_open_jira_issues env self pid) = Inr tasks
     \<Longrightarrow> urlopen_read env (search_request self (''jql='' @ quote_plus (jql pid))) = Inr data
     \<Longrightarrow> json_loads env data = None \<Longrightarrow> tasks = []"
  by (simp add: get_open_jira_issues_cases)

lemma open_issues_unreadable:
  "\<not> has_surrogate (py_str pid) \<Longrightarrow> fst (get_open_jira_issues env self pid) = Inr tasks
     \<Longrightarrow> urlopen_read env (search_request self (''jql='' @ quote_plus (jql pid))) = Inr data
     \<Longrightarrow> json_loads env data = Some j \<Longrightarrow> parse_issues j = Inl e \<Longrightarrow> tasks = []"
  by (simp add: get_open_jira_issues_cases)

lemma open_issues_read:
  "\<not> has_surrogate (py_str pid) \<Longrightarrow> fst (get_open_jira_issues env self pid) = Inr tasks
     \<Longrightarrow> urlopen_read env (search_request self (''jql='' @ quote_plus (jql pid))) = Inr data
     \<Longrightarrow> json_loads env data = Some j \<Longrightarrow> parse_issues j = Inr ts \<Longrightarrow> tasks = ts"
  by (simp add: get_open_jira_issues_cases)

text \<open>
  Claim C4, as amended. For every project id that UTF-8 can encode \<^verbatim>\<open>get_open_jira_issues\<close>
  returns a list and raises nothing, whatever the tracker does. The list is empty when the HTTP
  call fails in any way, when the body is not JSON, and when the parsed reply cannot be read (no
  \<open>issues\<close>, or an issue with a missing key). For a reply in the tracker's format the list holds
  one record per issue, in order, whose \<open>assignee\<close> is the display name of the issue's assignee,
  and the string \<open>None\<close> when the issue has none. For a project id that holds a lone surrogate
  the function raises \<^verbatim>\<open>UnicodeEncodeError\<close> and sends nothing.
\<close>

theorem get_open_jira_issues_never_raises:
  "(\<not> has_surrogate (py_str pid) \<longrightarrow>
     (\<exists>tasks. fst (get_open_jira_issues env self pid) = Inr tasks
       \<and> ((\<exists>f. urlopen_read env (search_request self (''jql='' @ quote_plus (jql pid))) = Inl f)
            \<longrightarrow> tasks = [])
       \<and> (\<forall>data. urlopen_read env (search_request self (''jql='' @ quote_plus (jql pid)))
                   = Inr data \<longrightarrow>
            (json_loads env data = None \<longrightarrow> tasks = [])
          \<and> (\<forall>j. json_loads env data = Some j \<longrightarrow>
               ((\<exists>e. parse_issues j = Inl e) \<longrightarrow> tasks = [])
             \<and> (\<forall>issues. py_getitem j ''issues'' = Inr (PList (map spec_issue_reply issues))
                  \<longrightarrow> tasks = map spec_issue_record issues)
             \<and> (\<forall>issues. py_getitem j ''issues'' = Inr (PList issues) \<longrightarrow>
                  (\<forall>ts. list_all2 (\<lambda>i t. issue_task i = Inr t) issues ts \<longrightarrow> tasks = ts)
                \<and> ((\<exists>i \<in> set issues. \<exists>e. issue_task i = Inl e) \<longrightarrow> tasks = []))))))
   \<and> (has_surrogate (py_str pid) \<longrightarrow>
        get_open_jira_issues env self pid = (Inl UnicodeEncodeError, []))
   \<and> (\<forall>i. issue_task (spec_issue_reply i) = Inr (spec_issue_record i))
   \<and> (\<forall>issue t. issue_task issue = Inr t \<longrightarrow>
          (\<exists>fields a. py_getitem issue ''fields'' = Inr fields
             \<and> py_getitem fields ''assignee'' = Inr a
             \<and> py_getitem t ''assignee'' =
                 (if py_truthy a then py_getitem a ''displayName'' else Inr (PStr ''None''))))"
proof (intro conjI impI)
  show "\<forall>i. issue_task (spec_issue_reply i) = Inr (spec_issue_record i)"
    by (simp add: issue_task_spec)
  show "\<forall>issue t. issue_task issue = Inr t \<longrightarrow>
          (\<exists>fields a. py_getitem issue ''fields'' = Inr fields
             \<and> py_getitem fields ''assignee'' = Inr a
             \<and> py_getitem t ''assignee'' =
                 (if py_truthy a then py_getitem a ''displayName'' else Inr (PStr ''None'')))"
    using issue_task_assignee by blast
  show "get_open_jira_issues env self pid = (Inl UnicodeEncodeError, [])"
    if "has_surrogate (py_str pid)"
    using that by (rule get_open_jira_issues_unencodable)
next
  assume enc: "\<not> has_surrogate (py_str pid)"
  from open_issues_returns [OF enc] obtain tasks where
    r: "fst (get_open_jira_issues env self pid) = Inr tasks" by blast
  show "\<exists>tasks. fst (get_open_jira_issues env self pid) = Inr tasks
       \<and> ((\<exists>f. urlopen_read env (search_request self (''jql='' @ quote_plus (jql pid))) = Inl f)
            \<longrightarrow> tasks = [])
       \<and> (\<forall>data. urlopen_read env (search_request self (''jql='' @ quote_plus (jql pid)))
                   = Inr data \<longrightarrow>
            (json_loads env data = None \<longrightarrow> tasks = [])
          \<and> (\<forall>j. json_loads env data = Some j \<longrightarrow>
               ((\<exists>e. parse_issues j = Inl e) \<longrightarrow> tasks = [])
             \<and> (\<forall>issues. py_getitem j ''issues'' = Inr (PList (map spec_issue_reply issues))
                  \<longrightarrow> tasks = map spec_issue_record issues)
             \<and> (\<forall>issues. py_getitem j ''issues'' = Inr (PList issues) \<longrightarrow>
                  (\<forall>ts. list_all2 (\<lambda>i t. issue_task i = Inr t) issues ts \<longrightarrow> tasks = ts)
                \<and> ((\<exists>i \<in> set issues. \<exists>e. issue_task i = Inl e) \<longrightarrow> tasks = []))))"
  proof (intro exI [of _ tasks] conjI allI impI)
    show "fst (get_open_jira_issues env self pid) = Inr tasks" by (rule r)
  next
    assume "\<exists>f. urlopen_read env (search_request self (''jql='' @ quote_plus (jql pid))) = Inl f"
    then obtain f where
      "urlopen_read env (search_request self (''jql='' @ quote_plus (jql pid))) = Inl f" ..
    with enc r show "tasks = []" by (rule open_issues_http_failure)
  next
    fix data
    assume u: "urlopen_read env (search_request self (''jql='' @ quote_plus (jql pid))) = Inr data"
    {
      assume "json_loads env data = None"
      with enc r u show "tasks = []" by (rule open_issues_not_json)
    }
    fix j
    assume l: "json_loads env data = Some j"
    {
      assume "\<exists>e. parse_issues j = Inl e"
      then obtain e where "parse_issues j = Inl e" ..
      with enc r u l show "tasks = []" by (rule open_issues_unreadable)
    }
    fix issues
    {
      assume "py_getitem j ''issues'' = Inr (PList (map spec_issue_reply issues))"
      then have "parse_issues j = Inr (map spec_issue_record issues)"
        by (rule parse_issues_spec)
      with enc r u l show "tasks = map spec_issue_record issues" by (rule open_issues_read)
    }
    assume i: "py_getitem j ''issues'' = Inr (PList issues)"
    {
      fix ts
      assume "list_all2 (\<lambda>i t. issue_task i = Inr t) issues ts"
      then have "build_tasks issues [] = Inr ts" by (rule build_tasks_all2)
      with i have "parse_issues j = Inr ts" by (simp add: parse_issues_list)
      with enc r u l show "tasks = ts" by (rule open_issues_read)
    }
    assume "\<exists>i \<in> set issues. \<exists>e. issue_task i = Inl e"
    then have "\<exists>e. build_tasks issues [] = Inl e" by (rule build_tasks_Inl)
    then obtain e where "build_tasks issues [] = Inl e" ..
    with i have "parse_issues j = Inl e" by (simp add: parse_issues_list)
    with enc r u l show "tasks = []" by (rule open_issues_unreadable)
  qed
qed

text \<open>
  Claim C4 as stated fails: a project id that holds a lone surrogate makes \<^verbatim>\<open>urlencode\<close>
  raise in front of the \<^verbatim>\<open>try\<close> block, whatever the tracker would have answered.
\<close>

theorem get_open_jira_issues_surrogate_counterexample:
  "get_open_jira_issues (sample_env\<lparr>urlopen_read := down_tracker\<rparr>) sample_jira
     (Some (''CRM'' @ lone_surrogate))
   = (Inl UnicodeEncodeError, [])"
  by (simp add: get_open_jira_issues_def urlencode1_def utf8_encode_def bindE_simps jql_def
      py_str_def lone_surrogate_def)

theorem get_open_jira_issues_never_raises_witness:
  "\<not> has_surrogate (py_str (Some ''P1''))
   \<and> urlopen_read sample_env (search_request sample_jira (''jql='' @ quote_plus (jql (Some ''P1''))))
       = Inr ''{\"issues\": [...]}''
   \<and> fst (get_open_jira_issues sample_env sample_jira (Some ''P1''))
       = Inr [PDict [(''issueKey'', PStr ''CRM-7''), (''summary'', PStr ''Send proposal''),
                     (''status'', PStr ''To Do''), (''project'', PStr ''CRM''),
                     (''duedate'', PStr ''2024-02-01''), (''assignee'', PStr ''None'')],
              PDict [(''issueKey'', PStr ''CRM-9''), (''summary'', PStr ''Renew contract''),
                     (''status'', PStr ''In Progress''), (''project'', PStr ''CRM''),
                     (''duedate'', PNone), (''assignee'', PStr ''Dana Reyes'')]]
   \<and> fst (get_open_jira_issues (sample_env\<lparr>urlopen_read := down_tracker\<rparr>)
            sample_jira (Some ''P1'')) = Inr []
   \<and> has_surrogate (py_str (Some lone_surrogate))
   \<and> fst (get_open_jira_issues sample_env sample_jira (Some lone_surrogate))
       = Inl UnicodeEncodeError"
proof -
  define data where "data = ''{\"issues\": [...]}''"
  define rq where "rq = search_request sample_jira (''jql='' @ quote_plus (jql (Some ''P1'')))"
  define j where "j = PDict [(''issues'', PList (map spec_issue_reply sample_issues))]"
  define down where "down = sample_env\<lparr>urlopen_read := down_tracker\<rparr>"
  note enc = has_surrogate_samples(1)
  have u: "urlopen_read sample_env rq = Inr data"
    by (simp add: sample_env_def sample_tracker_def search_request_def Let_def rq_def data_def)
  have l: "json_loads sample_env data = Some j"
    by (simp add: sample_env_def sample_json_loads_def data_def j_def)
  have i: "py_getitem j ''issues'' = Inr (PList (map spec_issue_reply sample_issues))"
    by (simp add: j_def)
  have d: "\<exists>f. urlopen_read down rq = Inl f"
    by (simp add: down_def down_tracker_def)
  from get_open_jira_issues_never_raises [of "Some ''P1''" sample_env sample_jira,
      THEN conjunct1, rule_format, OF enc]
  obtain tasks where
    r: "fst (get_open_jira_issues sample_env sample_jira (Some ''P1'')) = Inr tasks"
    and ok: "\<forall>data. urlopen_read sample_env rq = Inr data \<longrightarrow>
            (json_loads sample_env data = None \<longrightarrow> tasks = [])
          \<and> (\<forall>j. json_loads sample_env data = Some j \<longrightarrow>
               ((\<exists>e. parse_issues j = Inl e) \<longrightarrow> tasks = [])
             \<and> (\<forall>issues. py_getitem j ''issues'' = Inr (PList (map spec_issue_reply issues))
                  \<longrightarrow> tasks = map spec_issue_record issues)
             \<and> (\<forall>issues. py_getitem j ''issues'' = Inr (PList issues) \<longrightarrow>
                  (\<forall>ts. list_all2 (\<lambda>i t. issue_task i = Inr t) issues ts \<longrightarrow> tasks = ts)
                \<and> ((\<exists>i \<in> set issues. \<exists>e. issue_task i = Inl e) \<longrightarrow> tasks = [])))"
    unfolding rq_def [symmetric] by (elim exE conjE) (rule that)
  note a1 = ok [rule_format, OF u]
  note a2 = a1 [THEN conjunct2, rule_format, OF l]
  note a3 = a2 [THEN conjunct2, THEN conjunct1, rule_format, OF i]
  from get_open_jira_issues_never_raises [of "Some ''P1''" down sample_jira,
      THEN conjunct1, rule_format, OF enc]
  obtain tasks' where
    r': "fst (get_open_jira_issues down sample_jira (Some ''P1'')) = Inr tasks'"
    and f: "(\<exists>f. urlopen_read down rq = Inl f) \<longrightarrow> tasks' = []"
    unfolding rq_def [symmetric] by (elim exE conjE) (rule that)
  from f d have e: "tasks' = []" by (rule mp)
  from get_open_jira_issues_never_raises [of "Some lone_surrogate" sample_env sample_jira,
      THEN conjunct2, THEN conjunct1, rule_format, OF has_surrogate_samples(2)]
  have s: "fst (get_open_jira_issues sample_env sample_jira (Some lone_surrogate))
      = Inl UnicodeEncodeError" by simp
  have m: "map spec_issue_record sample_issues =
      [PDict [(''issueKey'', PStr ''CRM-7''), (''summary'', PStr ''Send proposal''),
                     (''status'', PStr ''To Do''), (''project'', PStr ''CRM''),
                     (''duedate'', PStr ''2024-02-01''), (''assignee'', PStr ''None'')],
              PDict [(''issueKey'', PStr ''CRM-9''), (''summary'', PStr ''Renew contract''),
                     (''status'', PStr ''In Progress''), (''project'', PStr ''CRM''),
                     (''duedate'', PNone), (''assignee'', PStr ''Dana Reyes'')]]"
    by (simp add: sample_issues_def spec_issue_record_def py_opt_def)
  from enc u r a3 r' e s has_surrogate_samples(2) show ?thesis
    unfolding m [symmetric] data_def rq_def down_def by simp
qed

subsection \<open>Updating an issue\<close>

declare dec_digits.simps [simp del]

lemma digit_char_digit: "digit_char d \<in> set ''0123456789''"
  unfolding digit_char_def by (rule nth_mem) simp

lemma dec_digits_small: "n < 10 \<Longrightarrow> dec_digits n = [digit_char n]"
  by (subst dec_digits.simps) simp

lemma dec_digits_step: "10 \<le> n \<Longrightarrow> dec_digits n = dec_digits (n div 10) @ [digit_char n]"
  by (subst dec_digits.simps) simp

lemma dec_digits_two:
  "10 \<le> n \<Longrightarrow> n < 100 \<Longrightarrow> dec_digits n = [digit_char (n div 10), digit_char n]"
  by (simp add: dec_digits_step dec_digits_small)

lemma dec_digits_three:
  "100 \<le> n \<Longrightarrow> n < 1000
     \<Longrightarrow> dec_digits n = [digit_char (n div 100), digit_char (n div 10), digit_char n]"
  using dec_digits_two [of "n div 10"] by (simp add: dec_digits_step div_mult2_eq [symmetric])

lemma dec_digits_four:
  assumes "1000 \<le> n" and "n \<le> 9999"
  shows "dec_digits n
           = [digit_char (n div 1000), digit_char (n div 100), digit_char (n div 10), digit_char n]"
  using assms dec_digits_three [of "n div 10"]
  by (simp add: dec_digits_step div_mult2_eq [symmetric])

lemma pad2_two: "n < 100 \<Longrightarrow> pad2 n = [digit_char (n div 10), digit_char n]"
  by (cases "n < 10") (simp_all add: pad2_def dec_digits_small dec_digits_two digit_char_def)

lemma month_day_bounds:
  assumes "0 \<le> nd" and "nd \<le> 364"
  shows "1 \<le> fst (month_day nd leap) \<and> fst (month_day nd leap) \<le> 12
         \<and> 1 \<le> snd (month_day nd leap) \<and> snd (month_day nd leap) \<le> 31"
proof -
  define m where "m = (nd + 50) div 32"
  have "1 \<le> m" "m \<le> 12" using assms by (simp_all add: m_def)
  then have "m \<in> {1, 2, 3, 4, 5, 6, 7, 8, 9, 10, 11, 12}" by simp arith
  moreover have r: "32 * m - 50 \<le> nd" "nd \<le> 32 * m - 19"
    using assms by (simp_all add: m_def)
  ultimately show ?thesis
    using assms unfolding month_day_def Let_def m_def [symmetric]
    by (elim insertE emptyE) (simp_all add: days_before_month_def days_in_month_def)
qed

text \<open>
  From the first day of the year 1000 to the last day of the year 9999 the calendar date of an
  ordinal has a year of four digits, a month from 1 to 12 and a day from 1 to 31.
\<close>

lemma ord2ymd_bounds:
  assumes lo: "ORDINAL_1000 \<le> n" and hi: "n \<le> MAXORDINAL"
  shows "\<exists>y m d. ord2ymd n = (y, m, d) \<and> 1000 \<le> y \<and> y \<le> 9999
           \<and> 1 \<le> m \<and> m \<le> 12 \<and> 1 \<le> d \<and> d \<le> 31"
proof -
  define k where "k = n - 1"
  define a where "a = k div 146097"
  define na where "na = k mod 146097"
  define b where "b = na div 36524"
  define nb where "nb = na mod 36524"
  define c where "c = nb div 1461"
  define nc where "nc = nb mod 1461"
  define e where "e = nc div 365"
  define nd where "nd = nc mod 365"
  define Y where "Y = a * 400 + 1 + b * 100 + c * 4 + e"
  have k: "364877 \<le> k" "k \<le> 3652058"
    using lo hi by (simp_all add: k_def ORDINAL_1000_def MAXORDINAL_def)
  have ka: "k = 146097 * a + na" "0 \<le> na" "na < 146097"
    by (simp_all add: a_def na_def)
  have ab: "na = 36524 * b + nb" "0 \<le> nb" "nb < 36524"
    by (simp_all add: b_def nb_def)
  have bc: "nb = 1461 * c + nc" "0 \<le> nc" "nc < 1461"
    by (simp_all add: c_def nc_def)
  have ce: "nc = 365 * e + nd" "0 \<le> nd" "nd < 365"
    by (simp_all add: e_def nd_def)
  have ra: "2 \<le> a" "a \<le> 24" using k ka by arith+
  have rb: "0 \<le> b" "b \<le> 4" using ka ab by arith+
  have rc: "0 \<le> c" "c \<le> 24" using ab bc by arith+
  have re: "0 \<le> e" "e \<le> 4" using bc ce by arith+
  have low: "1000 \<le> (if e = 4 \<or> b = 4 then Y - 1 else Y)"
  proof (cases "3 \<le> a")
    case True
    with rb rc re show ?thesis by (simp add: Y_def)
  next
    case False
    with ra have a2: "a = 2" by simp
    with k ka have na: "72683 \<le> na" by simp
    with ab have b1: "1 \<le> b" by arith
    show ?thesis
    proof (cases "2 \<le> b")
      case True
      with a2 rc re show ?thesis by (simp add: Y_def)
    next
      case False
      with b1 have b: "b = 1" by simp
      with na ab have nb: "36159 \<le> nb" by simp
      with bc rc have c: "c = 24" by arith
      with nb bc have "1095 \<le> nc" by simp
      moreover from c bc ab have "nc \<le> 1459" by simp
      ultimately have "e = 3" using ce by arith
      with a2 b c show ?thesis by (simp add: Y_def)
    qed
  qed
  have high: "(if e = 4 \<or> b = 4 then Y - 1 else Y) \<le> 9999"
  proof (cases "a \<le> 23")
    case True
    with rb rc re show ?thesis by (simp add: Y_def)
  next
    case False
    with ra have a24: "a = 24" by simp
    with k ka have na: "na \<le> 145730" by simp
    with ab have b3: "b \<le> 3" by arith
    show ?thesis
    proof (cases "b \<le> 2")
      case True
      with a24 rc re show ?thesis by (simp add: Y_def)
    next
      case False
      with b3 have b: "b = 3" by simp
      with na ab have nb: "nb \<le> 36158" by simp
      show ?thesis
      proof (cases "c \<le> 23")
        case True
        with a24 b re show ?thesis by (simp add: Y_def)
      next
        case False
        with rc have c: "c = 24" by simp
        with nb bc have "nc \<le> 1094" by simp
        with ce have "e \<le> 2" by arith
        with a24 b c show ?thesis by (simp add: Y_def)
      qed
    qed
  qed
  show ?thesis
  proof (cases "e = 4 \<or> b = 4")
    case True
    then have "ord2ymd n = (Y - 1, 12, 31)"
      by (simp add: ord2ymd_def Let_def Y_def a_def b_def c_def e_def na_def nb_def nc_def
          k_def)
    with low high True show ?thesis by simp
  next
    case False
    define leap where "leap = (e = 3 \<and> (c \<noteq> 24 \<or> b = 3))"
    from False have o: "ord2ymd n = (Y, month_day nd leap)"
      by (simp add: ord2ymd_def Let_def Y_def a_def b_def c_def e_def na_def nb_def nc_def
          nd_def k_def leap_def)
    from ce have "0 \<le> nd" "nd \<le> 364" by simp_all
    from month_day_bounds [OF this, of leap] low high False o show ?thesis
      by (cases "month_day nd leap") simp
  qed
qed

lemma strftime_ymd_shape:
  assumes "ORDINAL_1000 \<le> n" and "n \<le> MAXORDINAL"
  shows "ymd_shape (strftime_ymd n)"
proof -
  from ord2ymd_bounds [OF assms] obtain y m d where o: "ord2ymd n = (y, m, d)"
    and y: "1000 \<le> y" "y \<le> 9999" and m: "1 \<le> m" "m \<le> 12" and d: "1 \<le> d" "d \<le> 31"
    by blast
  have "dec_digits (nat y) = [digit_char (nat y div 1000), digit_char (nat y div 100),
      digit_char (nat y div 10), digit_char (nat y)]"
    using y by (intro dec_digits_four) simp_all
  moreover have "pad2 (nat m) = [digit_char (nat m div 10), digit_char (nat m)]"
    using m by (intro pad2_two) simp
  moreover have "pad2 (nat d) = [digit_char (nat d div 10), digit_char (nat d)]"
    using d by (intro pad2_two) simp
  ultimately show ?thesis
    using digit_char_digit by (simp add: strftime_ymd_def o ymd_shape_def)
qed

text \<open>Before the year 1000 the year is shorter: 53500 weeks before 2024-01-01.\<close>

lemma strftime_ymd_year_998: "strftime_ymd (738886 + 7 * (- 53500)) = ''998-08-27''"
  by (simp add: strftime_ymd_def ord2ymd_def month_day_def days_before_month_def
      days_in_month_def Let_def dec_digits_three pad2_two digit_char_def)

lemma strftime_ymd_sample: "strftime_ymd (738886 + 7 * 2) = ''2024-01-15''"
  by (simp add: strftime_ymd_def ord2ymd_def month_day_def days_before_month_def
      days_in_month_def Let_def dec_digits_four pad2_two digit_char_def)

lemma due_in_range:
  "\<bar>7 * w\<bar> \<le> 999999999 \<and> 0 < now + 7 * w \<and> now + 7 * w \<le> MAXORDINAL
     \<Longrightarrow> bindE (timedelta_weeks w) (datetime_add now) = Inr (now + 7 * w)"
  by (simp add: timedelta_weeks_def datetime_add_def bindE_simps)

lemma due_out_of_range:
  "\<not> (\<bar>7 * w\<bar> \<le> 999999999 \<and> 0 < now + 7 * w \<and> now + 7 * w \<le> MAXORDINAL)
     \<Longrightarrow> bindE (timedelta_weeks w) (datetime_add now) = Inl OverflowError"
  by (auto simp: timedelta_weeks_def datetime_add_def bindE_simps)

text \<open>
  Claim C3, as amended. For every issue key and every integer number of weeks \<open>w\<close> for which
  today plus \<open>7 * w\<close> days is a date \<^verbatim>\<open>datetime\<close> can hold: \<^verbatim>\<open>update_jira_issue\<close> sends one
  \<^verbatim>\<open>PUT\<close> to \<^verbatim>\<open>{jira_url}/issue/{issue_key}\<close> whose payload carries as \<open>duedate\<close> today's
  date plus \<open>7 * w\<close> days as \<^verbatim>\<open>strftime("%Y-%m-%d")\<close> writes it, which has the form
  \<^verbatim>\<open>YYYY-MM-DD\<close> when that date lies in the year 1000 or later; it returns
  \<^verbatim>\<open>{issueKey, newTimeline}\<close> when the call succeeds and the empty map when the call fails, and
  raises nothing. For any other \<open>w\<close> it raises \<^verbatim>\<open>OverflowError\<close> before sending anything.
\<close>

theorem update_jira_issue_result:
  "(\<bar>7 * w\<bar> \<le> 999999999 \<and> 0 < now_ordinal env + 7 * w \<and> now_ordinal env + 7 * w \<le> MAXORDINAL \<longrightarrow>
      snd (update_jira_issue env self key w) =
        [HttpSend \<lparr>req_url = py_str (jira_url self) @ ''/issue/'' @ py_str key,
           req_data = Some (Dumps (PDict [(''fields'',
             PDict [(''duedate'', PStr (strftime_ymd (now_ordinal env + 7 * w)))])])),
           req_headers = headers self, req_method = ''PUT''\<rparr>]
      \<and> (ORDINAL_1000 \<le> now_ordinal env + 7 * w \<longrightarrow>
           ymd_shape (strftime_ymd (now_ordinal env + 7 * w)))
      \<and> ((\<exists>data. urlopen_read env (update_request self key (strftime_ymd (now_ordinal env + 7 * w)))
                   = Inr data) \<longrightarrow>
           fst (update_jira_issue env self key w)
             = Inr (PDict [(''issueKey'', py_opt key), (''newTimeline'', PInt w)]))
      \<and> ((\<exists>f. urlopen_read env (update_request self key (strftime_ymd (now_ordinal env + 7 * w)))
                = Inl f) \<longrightarrow>
           fst (update_jira_issue env self key w) = Inr (PDict [])))
   \<and> (\<not> (\<bar>7 * w\<bar> \<le> 999999999 \<and> 0 < now_ordinal env + 7 * w \<and> now_ordinal env + 7 * w \<le> MAXORDINAL) \<longrightarrow>
      update_jira_issue env self key w = (Inl OverflowError, []))"
proof (intro conjI impI)
  assume r: "\<bar>7 * w\<bar> \<le> 999999999 \<and> 0 < now_ordinal env + 7 * w \<and> now_ordinal env + 7 * w \<le> MAXORDINAL"
  note d = due_in_range [OF r]
  show "snd (update_jira_issue env self key w) =
        [HttpSend \<lparr>req_url = py_str (jira_url self) @ ''/issue/'' @ py_str key,
           req_data = Some (Dumps (PDict [(''fields'',
             PDict [(''duedate'', PStr (strftime_ymd (now_ordinal env + 7 * w)))])])),
           req_headers = headers self, req_method = ''PUT''\<rparr>]"
    by (simp add: update_jira_issue_def d update_request_def Let_def)
  show "ymd_shape (strftime_ymd (now_ordinal env + 7 * w))"
    if "ORDINAL_1000 \<le> now_ordinal env + 7 * w"
    using that r by (intro strftime_ymd_shape) simp_all
  show "fst (update_jira_issue env self key w)
             = Inr (PDict [(''issueKey'', py_opt key), (''newTimeline'', PInt w)])"
    if "\<exists>data. urlopen_read env (update_request self key (strftime_ymd (now_ordinal env + 7 * w)))
                   = Inr data"
    using that by (auto simp: update_jira_issue_def d Let_def)
  show "fst (update_jira_issue env self key w) = Inr (PDict [])"
    if "\<exists>f. urlopen_read env (update_request self key (strftime_ymd (now_ordinal env + 7 * w)))
                = Inl f"
    using that by (auto simp: update_jira_issue_def d Let_def split: http_failure.splits)
next
  assume "\<not> (\<bar>7 * w\<bar> \<le> 999999999 \<and> 0 < now_ordinal env + 7 * w \<and> now_ordinal env + 7 * w \<le> MAXORDINAL)"
  then show "update_jira_issue env self key w = (Inl OverflowError, [])"
    by (simp add: update_jira_issue_def due_out_of_range)
qed

text \<open>
  Claim C3 as stated fails: with one million weeks the due date lies beyond the year 9999, the
  date arithmetic in front of the \<^verbatim>\<open>try\<close> block raises, and no request is sent.
\<close>

theorem update_jira_issue_overflow_counterexample:
  "update_jira_issue sample_env sample_jira (Some ''CRM-7'') 1000000 = (Inl OverflowError, [])"
  by (simp add: update_jira_issue_def sample_env_def timedelta_weeks_def datetime_add_def
      MAXORDINAL_def bindE_simps)

theorem update_jira_issue_result_witness:
  "\<bar>7 * (2::int)\<bar> \<le> 999999999 \<and> 0 < now_ordinal sample_env + 7 * 2
   \<and> now_ordinal sample_env + 7 * 2 \<le> MAXORDINAL
   \<and> strftime_ymd (now_ordinal sample_env + 7 * 2) = ''2024-01-15''
   \<and> ORDINAL_1000 \<le> now_ordinal sample_env + 7 * 2
   \<and> ymd_shape (strftime_ymd (now_ordinal sample_env + 7 * 2))
   \<and> update_jira_issue sample_env sample_jira (Some ''CRM-7'') 2 =
       (Inr (PDict [(''issueKey'', PStr ''CRM-7''), (''newTimeline'', PInt 2)]),
        [HttpSend \<lparr>req_url = ''https://jira.example.com/rest/api/2/issue/CRM-7'',
           req_data = Some (Dumps (PDict [(''fields'', PDict [(''duedate'', PStr ''2024-01-15'')])])),
           req_headers = headers sample_jira, req_method = ''PUT''\<rparr>])
   \<and> fst (update_jira_issue sample_env sample_jira (Some ''CRM-8'') 2) = Inr (PDict [])
   \<and> \<not> (\<bar>7 * (1000000::int)\<bar> \<le> 999999999 \<and> 0 < now_ordinal sample_env + 7 * 1000000
          \<and> now_ordinal sample_env + 7 * 1000000 \<le> MAXORDINAL)
   \<and> fst (update_jira_issue sample_env sample_jira None 1000000) = Inl OverflowError"
proof -
  have now: "now_ordinal sample_env = 738886" by (simp add: sample_env_def)
  have r: "\<bar>7 * (2::int)\<bar> \<le> 999999999 \<and> 0 < now_ordinal sample_env + 7 * 2
      \<and> now_ordinal sample_env + 7 * 2 \<le> MAXORDINAL"
    by (simp add: now MAXORDINAL_def)
  have s: "strftime_ymd (now_ordinal sample_env + 7 * 2) = ''2024-01-15''"
    using strftime_ymd_sample by (simp add: now)
  have y: "ORDINAL_1000 \<le> now_ordinal sample_env + 7 * 2"
    by (simp add: now ORDINAL_1000_def)
  from update_jira_issue_result [of 2 sample_env sample_jira None, THEN conjunct1, rule_format,
      OF r, THEN conjunct2, THEN conjunct1, rule_format, OF y]
  have sh: "ymd_shape (strftime_ymd (now_ordinal sample_env + 7 * 2))" .
  have u7: "urlopen_read sample_env (update_request sample_jira (Some ''CRM-7'') ''2024-01-15'') = Inr ''{}''"
    by (simp add: sample_env_def sample_tracker_def update_request_def sample_jira_def py_str_def Let_def)
  have u8: "urlopen_read sample_env (update_request sample_jira (Some ''CRM-8'') ''2024-01-15'')
      = Inl (HTTPError 404 ''Not Found'')"
    by (simp add: sample_env_def sample_tracker_def update_request_def sample_jira_def py_str_def Let_def)
  have big: "\<not> (\<bar>7 * (1000000::int)\<bar> \<le> 999999999 \<and> 0 < now_ordinal sample_env + 7 * 1000000
          \<and> now_ordinal sample_env + 7 * 1000000 \<le> MAXORDINAL)"
    by (simp add: now MAXORDINAL_def)
  have a: "update_jira_issue sample_env sample_jira (Some ''CRM-7'') 2 =
       (Inr (PDict [(''issueKey'', PStr ''CRM-7''), (''newTimeline'', PInt 2)]),
        [HttpSend \<lparr>req_url = ''https://jira.example.com/rest/api/2/issue/CRM-7'',
           req_data = Some (Dumps (PDict [(''fields'', PDict [(''duedate'', PStr ''2024-01-15'')])])),
           req_headers = headers sample_jira, req_method = ''PUT''\<rparr>])"
    using update_jira_issue_result [of 2 sample_env sample_jira "Some ''CRM-7''"] r u7
    unfolding s by (simp add: prod_eq_iff py_opt_def py_str_def sample_jira_def)
  have b: "fst (update_jira_issue sample_env sample_jira (Some ''CRM-8'') 2) = Inr (PDict [])"
    using update_jira_issue_result [of 2 sample_env sample_jira "Some ''CRM-8''"] r u8
    unfolding s by simp
  have c: "fst (update_jira_issue sample_env sample_jira None 1000000) = Inl OverflowError"
    using update_jira_issue_result [of 1000000 sample_env sample_jira None] big by simp
  from r s y sh a b big c show ?thesis by blast
qed

subsection \<open>Constructing the tracker client\<close>

lemma fst_get_secret:
  "fst (get_secret env n) =
     (case get_secret_value env n of
        Inl e \<Rightarrow> Inl e
      | Inr (SecretString s) \<Rightarrow> Inr (Some s)
      | Inr (SecretBinary b) \<Rightarrow> Inr None)"
  by (simp add: get_secret_def)

lemma snd_get_secret: "snd (get_secret env n) = [SecretsGet n]"
  by (simp add: get_secret_def)

lemma fst_get_jira_api_key:
  "fst (get_jira_api_key env arn) =
     (case arn of
        None \<Rightarrow> Inl ParamValidationError
      | Some a \<Rightarrow>
          (case get_secret_value env a of
             Inl e \<Rightarrow> Inl e
           | Inr (SecretString s) \<Rightarrow> Inr s
           | Inr (SecretBinary b) \<Rightarrow> Inl (KeyError ''SecretString'')))"
  by (simp add: get_jira_api_key_def split: option.splits)

lemma snd_get_jira_api_key:
  "snd (get_jira_api_key env arn) = (case arn of None \<Rightarrow> [] | Some a \<Rightarrow> [SecretsGet a])"
  by (simp add: get_jira_api_key_def split: option.splits)

lemma fst_init:
  "fst (JiraInteraction_init env) =
     (case get_secret_value env ''JIRA_URL'' of
        Inl e \<Rightarrow> Inl e
      | Inr u \<Rightarrow>
     (case get_secret_value env ''JIRA_API_KEY_ARN'' of
        Inl e \<Rightarrow> Inl e
      | Inr a \<Rightarrow>
     (case get_secret_value env ''JIRA_USER_NAME'' of
        Inl e \<Rightarrow> Inl e
      | Inr n \<Rightarrow>
     (case fst (get_jira_api_key env (secret_str a)) of
        Inl e \<Rightarrow> Inl e
      | Inr k \<Rightarrow>
          Inr \<lparr>jira_url = secret_str u, jira_api_key_arn = secret_str a,
               jira_username = secret_str n,
               credentials = b64encode (py_str (secret_str n) @ '':'' @ k),
               headers = [(''Accept'', ''application/json''),
                          (''Content-Type'', ''application/json''),
                          (''Authorization'',
                           ''Basic '' @ b64encode (py_str (secret_str n) @ '':'' @ k))]\<rparr>))))"
proof -
  have g: "fst (get_secret env n) = map_sum id secret_str (get_secret_value env n)" for n
    by (simp add: fst_get_secret secret_str_def split: sum.splits secret_response.splits)
  show ?thesis
  proof (cases "get_secret_value env ''JIRA_URL''")
    case (Inl e)
    then show ?thesis by (simp add: JiraInteraction_init_def fst_bindIO g)
  next
    case u: (Inr u)
    show ?thesis
    proof (cases "get_secret_value env ''JIRA_API_KEY_ARN''")
      case (Inl e)
      with u show ?thesis by (simp add: JiraInteraction_init_def fst_bindIO g)
    next
      case a: (Inr a)
      show ?thesis
      proof (cases "get_secret_value env ''JIRA_USER_NAME''")
        case (Inl e)
        with u a show ?thesis by (simp add: JiraInteraction_init_def fst_bindIO g)
      next
        case n: (Inr n)
        show ?thesis
        proof (cases "fst (get_jira_api_key env (secret_str a))")
          case (Inl e)
          with u a n show ?thesis by (simp add: JiraInteraction_init_def fst_bindIO g)
        next
          case (Inr k)
          with u a n show ?thesis
            by (simp add: JiraInteraction_init_def fst_bindIO g pure_io_simps Let_def)
        qed
      qed
    qed
  qed
qed

text \<open>
  Claim C7, as amended. The construction of the tracker client raises, and the exception reaches
  the caller, whenever one of the three named secrets or the API key value cannot be fetched
  (the service's exception), whenever the API key reference holds no string
  (\<^verbatim>\<open>ParamValidationError\<close>) and whenever the API key value holds no string (\<^verbatim>\<open>KeyError\<close>).
  When all four can be fetched and the reference and the key are strings the construction
  completes; a tracker URL or a user name stored without a string value is then \<^verbatim>\<open>None\<close>.
\<close>

theorem JiraInteraction_init_raises:
  "(\<forall>e. get_secret_value env ''JIRA_URL'' = Inl e \<longrightarrow> fst (JiraInteraction_init env) = Inl e)
   \<and> (\<forall>u e. get_secret_value env ''JIRA_URL'' = Inr u
          \<and> get_secret_value env ''JIRA_API_KEY_ARN'' = Inl e
        \<longrightarrow> fst (JiraInteraction_init env) = Inl e)
   \<and> (\<forall>u a e. get_secret_value env ''JIRA_URL'' = Inr u
          \<and> get_secret_value env ''JIRA_API_KEY_ARN'' = Inr a
          \<and> get_secret_value env ''JIRA_USER_NAME'' = Inl e
        \<longrightarrow> fst (JiraInteraction_init env) = Inl e)
   \<and> (\<forall>u b n. get_secret_value env ''JIRA_URL'' = Inr u
          \<and> get_secret_value env ''JIRA_API_KEY_ARN'' = Inr (SecretBinary b)
          \<and> get_secret_value env ''JIRA_USER_NAME'' = Inr n
        \<longrightarrow> fst (JiraInteraction_init env) = Inl ParamValidationError)
   \<and> (\<forall>u a n e. get_secret_value env ''JIRA_URL'' = Inr u
          \<and> get_secret_value env ''JIRA_API_KEY_ARN'' = Inr (SecretString a)
          \<and> get_secret_value env ''JIRA_USER_NAME'' = Inr n
          \<and> get_secret_value env a = Inl e
        \<longrightarrow> fst (JiraInteraction_init env) = Inl e)
   \<and> (\<forall>u a n b. get_secret_value env ''JIRA_URL'' = Inr u
          \<and> get_secret_value env ''JIRA_API_KEY_ARN'' = Inr (SecretString a)
          \<and> get_secret_value env ''JIRA_USER_NAME'' = Inr n
          \<and> get_secret_value env a = Inr (SecretBinary b)
        \<longrightarrow> fst (JiraInteraction_init env) = Inl (KeyError ''SecretString''))
   \<and> (\<forall>u a n k. get_secret_value env ''JIRA_URL'' = Inr u
          \<and> get_secret_value env ''JIRA_API_KEY_ARN'' = Inr (SecretString a)
          \<and> get_secret_value env ''JIRA_USER_NAME'' = Inr n
          \<and> get_secret_value env a = Inr (SecretString k)
        \<longrightarrow> (\<exists>j. fst (JiraInteraction_init env) = Inr j
              \<and> jira_url j = (case u of SecretString s \<Rightarrow> Some s | SecretBinary x \<Rightarrow> None)
              \<and> jira_username j = (case n of SecretString s \<Rightarrow> Some s | SecretBinary x \<Rightarrow> None)))"
  unfolding fst_init fst_get_jira_api_key
  by (simp add: secret_str_def)

text \<open>
  Claim C7 as stated fails: with the tracker URL stored as a binary secret, \<^verbatim>\<open>get_secret\<close>
  returns \<^verbatim>\<open>None\<close> and the construction completes with that value.
\<close>

theorem JiraInteraction_init_default_counterexample:
  "fst (JiraInteraction_init (sample_env\<lparr>get_secret_value := binary_url_secrets\<rparr>))
     = Inr (sample_jira\<lparr>jira_url := None\<rparr>)"
  unfolding fst_init fst_get_jira_api_key
  by (simp add: binary_url_secrets_def sample_secrets_def secret_str_def sample_jira_def
      py_str_def b64encode_def b64_char_def)

theorem JiraInteraction_init_raises_witness:
  "get_secret_value (sample_env\<lparr>get_secret_value := no_secrets\<rparr>) ''JIRA_URL''
     = Inl (ServiceError ''AccessDeniedException'')
   \<and> fst (JiraInteraction_init (sample_env\<lparr>get_secret_value := no_secrets\<rparr>))
       = Inl (ServiceError ''AccessDeniedException'')
   \<and> (\<exists>j. fst (JiraInteraction_init sample_env) = Inr j
         \<and> jira_url j = Some ''https://jira.example.com/rest/api/2''
         \<and> jira_username j = Some ''bot'')
   \<and> fst (JiraInteraction_init
        (sample_env\<lparr>get_secret_value := sample_secrets(''arn:jira-key'' := Inr (SecretBinary ''AAEC''))\<rparr>))
       = Inl (KeyError ''SecretString'')"
proof -
  define off where "off = sample_env\<lparr>get_secret_value := no_secrets\<rparr>"
  define bin where
    "bin = sample_env\<lparr>get_secret_value := sample_secrets(''arn:jira-key'' := Inr (SecretBinary ''AAEC''))\<rparr>"
  have o: "get_secret_value off ''JIRA_URL'' = Inl (ServiceError ''AccessDeniedException'')"
    by (simp add: off_def no_secrets_def)
  have s: "get_secret_value sample_env ''JIRA_URL''
        = Inr (SecretString ''https://jira.example.com/rest/api/2'')
      \<and> get_secret_value sample_env ''JIRA_API_KEY_ARN'' = Inr (SecretString ''arn:jira-key'')
      \<and> get_secret_value sample_env ''JIRA_USER_NAME'' = Inr (SecretString ''bot'')
      \<and> get_secret_value sample_env ''arn:jira-key'' = Inr (SecretString ''s3cr3t'')"
    by (simp add: sample_env_def sample_secrets_def)
  have b: "get_secret_value bin ''JIRA_URL''
        = Inr (SecretString ''https://jira.example.com/rest/api/2'')
      \<and> get_secret_value bin ''JIRA_API_KEY_ARN'' = Inr (SecretString ''arn:jira-key'')
      \<and> get_secret_value bin ''JIRA_USER_NAME'' = Inr (SecretString ''bot'')
      \<and> get_secret_value bin ''arn:jira-key'' = Inr (SecretBinary ''AAEC'')"
    by (simp add: bin_def sample_secrets_def)
  note t = JiraInteraction_init_raises
  from t [of off, THEN conjunct1, rule_format, OF o]
  have 1: "fst (JiraInteraction_init off) = Inl (ServiceError ''AccessDeniedException'')" .
  from t [of sample_env, THEN conjunct2, THEN conjunct2, THEN conjunct2, THEN conjunct2,
      THEN conjunct2, THEN conjunct2, rule_format, OF s]
  have 2: "\<exists>j. fst (JiraInteraction_init sample_env) = Inr j
         \<and> jira_url j = Some ''https://jira.example.com/rest/api/2''
         \<and> jira_username j = Some ''bot''"
    by simp
  from t [of bin, THEN conjunct2, THEN conjunct2, THEN conjunct2, THEN conjunct2,
      THEN conjunct2, THEN conjunct1, rule_format, OF b]
  have 3: "fst (JiraInteraction_init bin) = Inl (KeyError ''SecretString'')" .
  from o 1 2 3 show ?thesis unfolding off_def bin_def by simp
qed

subsection \<open>The handler: order of calls\<close>

lemma snd_init_first:
  "\<exists>rest. snd (JiraInteraction_init env) = SecretsGet ''JIRA_URL'' # rest"
  by (simp add: JiraInteraction_init_def snd_bindIO snd_get_secret split: sum.splits)

lemma snd_init_secrets:
  "\<forall>x \<in> set (snd (JiraInteraction_init env)). \<exists>n. x = SecretsGet n"
  by (auto simp: JiraInteraction_init_def snd_bindIO snd_get_secret snd_get_jira_api_key
      pure_io_simps Let_def split: sum.splits option.splits)

lemma lambda_handler_parse_fail:
  "parse_request env ev = Inl e \<Longrightarrow> lambda_handler env ev = (Inl e, [])"
  by (simp add: lambda_handler_def bindIO_def pure_io_def)

lemma lambda_handler_init_fail:
  "parse_request env ev = Inr rq \<Longrightarrow> fst (JiraInteraction_init env) = Inl e
     \<Longrightarrow> lambda_handler env ev = (Inl e, snd (JiraInteraction_init env))"
  by (simp add: lambda_handler_def bindIO_def pure_io_def)

lemma lambda_handler_dispatch:
  "parse_request env ev = Inr rq \<Longrightarrow> fst (JiraInteraction_init env) = Inr j
     \<Longrightarrow> lambda_handler env ev =
          (case fst (dispatch env j rq) of
             Inl e \<Rightarrow> Inl e
           | Inr r \<Rightarrow> json_response (fst r) (snd r),
           snd (JiraInteraction_init env) @ snd (dispatch env j rq))"
  by (simp add: lambda_handler_def bindIO_def pure_io_def split: sum.splits)

text \<open>
  Claim C10, as amended. Whatever path a request carries, once it is parsed the calls of
  \<^verbatim>\<open>lambda_handler\<close> begin with the calls of the tracker client's construction, which are
  calls to the secrets service only and start with \<open>JIRA_URL\<close>: no store or tracker call comes
  before them. An exception raised by the construction is the exception of the whole
  invocation, and no other call is made, also for a request that does not use the tracker.
  A request that cannot be parsed fails before any call.
\<close>

theorem lambda_handler_constructs_first:
  "(\<forall>rq. parse_request env ev = Inr rq \<longrightarrow>
       (\<exists>rest. snd (lambda_handler env ev) = snd (JiraInteraction_init env) @ rest)
     \<and> (\<forall>e. fst (JiraInteraction_init env) = Inl e \<longrightarrow>
          lambda_handler env ev = (Inl e, snd (JiraInteraction_init env))))
   \<and> (\<exists>rest. snd (JiraInteraction_init env) = SecretsGet ''JIRA_URL'' # rest)
   \<and> (\<forall>x \<in> set (snd (JiraInteraction_init env)). \<exists>n. x = SecretsGet n)
   \<and> (\<forall>e. parse_request env ev = Inl e \<longrightarrow> lambda_handler env ev = (Inl e, []))"
proof (intro conjI allI impI)
  fix rq
  assume p: "parse_request env ev = Inr rq"
  show "\<exists>rest. snd (lambda_handler env ev) = snd (JiraInteraction_init env) @ rest"
  proof (cases "fst (JiraInteraction_init env)")
    case (Inl e)
    from lambda_handler_init_fail [OF p Inl] show ?thesis by simp
  next
    case (Inr j)
    from lambda_handler_dispatch [OF p Inr] show ?thesis by simp
  qed
next
  fix rq e
  assume "parse_request env ev = Inr rq" and "fst (JiraInteraction_init env) = Inl e"
  then show "lambda_handler env ev = (Inl e, snd (JiraInteraction_init env))"
    by (rule lambda_handler_init_fail)
next
  show "\<exists>rest. snd (JiraInteraction_init env) = SecretsGet ''JIRA_URL'' # rest"
    by (rule snd_init_first)
next
  show "\<forall>x \<in> set (snd (JiraInteraction_init env)). \<exists>n. x = SecretsGet n"
    by (rule snd_init_secrets)
next
  fix e
  assume "parse_request env ev = Inl e"
  then show "lambda_handler env ev = (Inl e, [])" by (rule lambda_handler_parse_fail)
qed

text \<open>
  Claim C10 as stated fails: a request without a query string is not parsed, the handler raises
  \<^verbatim>\<open>AttributeError\<close> at line 195 and constructs nothing, so no secret is looked up.
\<close>

theorem lambda_handler_unparsed_counterexample:
  "lambda_handler sample_env
     \<lparr>pathParameters = Some [(''proxy'', ''/getPreferences'')], queryStringParameters = None,
      event_body = None\<rparr>
   = (Inl AttributeError, [])"
  by (simp add: lambda_handler_def parse_request_def bindE_simps bindIO_def pure_io_def)

theorem lambda_handler_constructs_first_witness:
  "parse_request (sample_env\<lparr>get_secret_value := no_secrets\<rparr>)
      \<lparr>pathParameters = Some [(''proxy'', ''/getPreferences'')],
       queryStringParameters = Some [(''customerId'', ''C1'')], event_body = None\<rparr>
     = Inr \<lparr>api_path = ''/getPreferences'', customer_id = Some ''C1'', count = None,
            project_id = None, issue_key = None, timeline_in_weeks = PNone\<rparr>
   \<and> fst (JiraInteraction_init (sample_env\<lparr>get_secret_value := no_secrets\<rparr>))
       = Inl (ServiceError ''AccessDeniedException'')
   \<and> lambda_handler (sample_env\<lparr>get_secret_value := no_secrets\<rparr>)
      \<lparr>pathParameters = Some [(''proxy'', ''/getPreferences'')],
       queryStringParameters = Some [(''customerId'', ''C1'')], event_body = None\<rparr>
     = (Inl (ServiceError ''AccessDeniedException''), [SecretsGet ''JIRA_URL''])"
proof -
  define env where "env = sample_env\<lparr>get_secret_value := no_secrets\<rparr>"
  define ev where "ev = \<lparr>pathParameters = Some [(''proxy'', ''/getPreferences'')],
       queryStringParameters = Some [(''customerId'', ''C1'')], event_body = None\<rparr>"
  define rq where "rq = \<lparr>api_path = ''/getPreferences'', customer_id = Some ''C1'', count = None,
            project_id = None, issue_key = None, timeline_in_weeks = PNone\<rparr>"
  have p: "parse_request env ev = Inr rq"
    by (simp add: parse_request_def bindE_simps env_def ev_def rq_def)
  have i: "JiraInteraction_init env = (Inl (ServiceError ''AccessDeniedException''), [SecretsGet ''JIRA_URL''])"
    by (simp add: JiraInteraction_init_def bindIO_def get_secret_def env_def no_secrets_def)
  then have f: "fst (JiraInteraction_init env) = Inl (ServiceError ''AccessDeniedException'')"
    by simp
  from lambda_handler_constructs_first [of env ev, THEN conjunct1, rule_format, OF p,
      THEN conjunct2, rule_format, OF f]
  have "lambda_handler env ev = (Inl (ServiceError ''AccessDeniedException''), [SecretsGet ''JIRA_URL''])"
    by (simp add: i)
  with p f show ?thesis unfolding env_def ev_def rq_def by simp
qed

subsection \<open>The handler: status codes\<close>

lemma dispatch_unrecognized:
  "api_path rq \<notin> set recognized_paths
     \<Longrightarrow> dispatch env j rq = (Inr (404, PStr (''Unrecognized api path: '' @ api_path rq)), [])"
  by (simp add: dispatch_def recognized_paths_def pure_io_def)

lemma dispatch_recognized_code:
  assumes "api_path rq \<in> set recognized_paths" and "fst (dispatch env j rq) = Inr r"
  shows "fst r = 200"
proof -
  have ok: "fst (bindIO m (\<lambda>x. pure_io (Inr (200, g x)))) = Inr r \<Longrightarrow> fst r = 200"
    for m :: "'a io" and g :: "'a \<Rightarrow> pyval"
    by (auto simp: fst_bindIO pure_io_simps split: sum.splits)
  have ok2: "fst (bindIO m (\<lambda>y. bindIO (h y) (\<lambda>x. pure_io (Inr (200, g x))))) = Inr r \<Longrightarrow> fst r = 200"
    for m :: "'b io" and h :: "'b \<Rightarrow> 'a io" and g :: "'a \<Rightarrow> pyval"
    by (auto simp: fst_bindIO pure_io_simps split: sum.splits)
  from assms(1) consider
      "api_path rq = ''/listRecentInteractions''" | "api_path rq = ''/getPreferences''"
    | "api_path rq = ''/companyOverview''" | "api_path rq = ''/getOpenJiraIssues''"
    | "api_path rq = ''/updateJiraIssue''"
    by (auto simp: recognized_paths_def)
  then show ?thesis
  proof cases
    case 1
    with assms(2) show ?thesis unfolding dispatch_def by (simp add: ok2)
  next
    case 2
    with assms(2) show ?thesis unfolding dispatch_def by (simp add: ok)
  next
    case 3
    with assms(2) show ?thesis unfolding dispatch_def by (simp add: ok)
  next
    case 4
    with assms(2) show ?thesis unfolding dispatch_def by (simp add: ok)
  next
    case 5
    with assms(2) show ?thesis unfolding dispatch_def by (simp add: ok2)
  qed
qed

lemma json_response_code:
  "json_response c v = Inr resp \<Longrightarrow> statusCode resp = c"
  by (auto simp: json_response_def split: if_splits)

lemma dispatch_open_issues:
  "api_path rq = ''/getOpenJiraIssues''
     \<Longrightarrow> fst (dispatch env j rq)
          = map_sum id (\<lambda>ts. (200, PList ts)) (fst (get_open_jira_issues env j (project_id rq)))"
  by (simp add: dispatch_def fst_bindIO pure_io_simps split: sum.splits)

lemma dispatch_update:
  "api_path rq = ''/updateJiraIssue''
     \<Longrightarrow> fst (dispatch env j rq)
          = (case py_int env (timeline_in_weeks rq) of
               Inl e \<Rightarrow> Inl e
             | Inr w \<Rightarrow> map_sum id (\<lambda>v. (200, v)) (fst (update_jira_issue env j (issue_key rq) w)))"
  by (simp add: dispatch_def fst_bindIO pure_io_simps split: sum.splits)

lemma dispatch_interactions:
  "api_path rq = ''/listRecentInteractions''
     \<Longrightarrow> fst (dispatch env j rq)
          = (case py_int env (py_opt (count rq)) of
               Inl e \<Rightarrow> Inl e
             | Inr n \<Rightarrow> map_sum id (\<lambda>v. (200, v))
                         (fst (get_recent_customer_interactions env (customer_id rq) n)))"
  by (simp add: dispatch_def fst_bindIO pure_io_simps split: sum.splits)

lemma dispatch_preferences:
  "api_path rq = ''/getPreferences''
     \<Longrightarrow> fst (dispatch env j rq)
          = map_sum id (\<lambda>v. (200, v)) (fst (get_customer_preferences env (customer_id rq)))"
  by (simp add: dispatch_def fst_bindIO pure_io_simps split: sum.splits)

lemma dispatch_overview:
  "api_path rq = ''/companyOverview''
     \<Longrightarrow> fst (dispatch env j rq)
          = map_sum id (\<lambda>v. (200, v)) (fst (get_customer_overview env (customer_id rq)))"
  by (simp add: dispatch_def fst_bindIO pure_io_simps split: sum.splits)

lemma fst_handler:
  "parse_request env ev = Inr rq \<Longrightarrow> fst (JiraInteraction_init env) = Inr j
     \<Longrightarrow> fst (lambda_handler env ev) =
          (case fst (dispatch env j rq) of
             Inl e \<Rightarrow> Inl e
           | Inr r \<Rightarrow> json_response (fst r) (snd r))"
  by (simp add: lambda_handler_dispatch)

lemma open_issues_swallowed:
  "\<not> has_surrogate (py_str pid)
     \<Longrightarrow> \<exists>f. urlopen_read env (search_request j (''jql='' @ quote_plus (jql pid))) = Inl f
     \<Longrightarrow> fst (get_open_jira_issues env j pid) = Inr []"
  by (auto simp: get_open_jira_issues_cases)

lemma update_swallowed:
  assumes "\<bar>7 * w\<bar> \<le> 999999999 \<and> 0 < now_ordinal env + 7 * w \<and> now_ordinal env + 7 * w \<le> MAXORDINAL"
    and "\<exists>f. urlopen_read env (update_request j key (strftime_ymd (now_ordinal env + 7 * w))) = Inl f"
  shows "fst (update_jira_issue env j key w) = Inr (PDict [])"
  using assms(2) by (auto simp: update_jira_issue_def due_in_range [OF assms(1)] Let_def
      split: http_failure.splits)

lemma update_returns:
  assumes "\<bar>7 * w\<bar> \<le> 999999999 \<and> 0 < now_ordinal env + 7 * w \<and> now_ordinal env + 7 * w \<le> MAXORDINAL"
  shows "\<exists>v. fst (update_jira_issue env j key w) = Inr v \<and> json_serializable v"
  by (auto simp: update_jira_issue_def due_in_range [OF assms] Let_def py_opt_def
      split: http_failure.splits sum.splits option.splits)

lemma update_result_ser:
  "fst (update_jira_issue env j key w) = Inr v \<Longrightarrow> json_serializable v"
  by (auto simp: update_jira_issue_def Let_def py_opt_def
      split: http_failure.splits sum.splits option.splits)

text \<open>
  Claim C1, as amended. A request that is not parsed, or for which the tracker client is not
  constructed, gets no response: \<^verbatim>\<open>lambda_handler\<close> raises. For every other request: when the
  path is none of the five recognized paths \<^verbatim>\<open>lambda_handler\<close> returns status 404 and the message
  \<^verbatim>\<open>Unrecognized api path: {path}\<close>; when the path is one of the five and the operation it
  selects returns a value that \<^verbatim>\<open>json.dumps\<close> can write, \<^verbatim>\<open>lambda_handler\<close> returns status 200
  with that value as message, also when the tracker operation swallowed an error (a failed
  open-issues call gives 200 with the empty list, a failed update call gives 200 with the empty
  map); and no response for one of the five paths has another status.
\<close>

theorem lambda_handler_status:
  "(\<forall>e. parse_request env ev = Inl e \<longrightarrow> fst (lambda_handler env ev) = Inl e)
   \<and> (\<forall>rq. parse_request env ev = Inr rq \<longrightarrow>
       (\<forall>e. fst (JiraInteraction_init env) = Inl e \<longrightarrow> fst (lambda_handler env ev) = Inl e)
     \<and> (\<forall>j. fst (JiraInteraction_init env) = Inr j \<longrightarrow>
          (api_path rq \<notin> set recognized_paths \<longrightarrow>
             fst (lambda_handler env ev)
               = Inr \<lparr>statusCode = 404,
                      body = Dumps (PDict [(''message'',
                               PStr (''Unrecognized api path: '' @ api_path rq))])\<rparr>)
        \<and> (api_path rq \<in> set recognized_paths \<longrightarrow>
             (\<forall>resp. fst (lambda_handler env ev) = Inr resp \<longrightarrow> statusCode resp = 200))
        \<and> (\<forall>n v. api_path rq = ''/listRecentInteractions''
             \<and> py_int env (py_opt (count rq)) = Inr n
             \<and> fst (get_recent_customer_interactions env (customer_id rq) n) = Inr v
             \<and> json_serializable v \<longrightarrow>
             fst (lambda_handler env ev)
               = Inr \<lparr>statusCode = 200, body = Dumps (PDict [(''message'', v)])\<rparr>)
        \<and> (\<forall>v. api_path rq = ''/getPreferences''
             \<and> fst (get_customer_preferences env (customer_id rq)) = Inr v
             \<and> json_serializable v \<longrightarrow>
             fst (lambda_handler env ev)
               = Inr \<lparr>statusCode = 200, body = Dumps (PDict [(''message'', v)])\<rparr>)
        \<and> (\<forall>v. api_path rq = ''/companyOverview''
             \<and> fst (get_customer_overview env (customer_id rq)) = Inr v
             \<and> json_serializable v \<longrightarrow>
             fst (lambda_handler env ev)
               = Inr \<lparr>statusCode = 200, body = Dumps (PDict [(''message'', v)])\<rparr>)
        \<and> (\<forall>ts. api_path rq = ''/getOpenJiraIssues''
             \<and> fst (get_open_jira_issues env j (project_id rq)) = Inr ts
             \<and> json_serializable (PList ts) \<longrightarrow>
             fst (lambda_handler env ev)
               = Inr \<lparr>statusCode = 200, body = Dumps (PDict [(''message'', PList ts)])\<rparr>)
        \<and> (\<forall>w v. api_path rq = ''/updateJiraIssue''
             \<and> py_int env (timeline_in_weeks rq) = Inr w
             \<and> fst (update_jira_issue env j (issue_key rq) w) = Inr v \<longrightarrow>
             fst (lambda_handler env ev)
               = Inr \<lparr>statusCode = 200, body = Dumps (PDict [(''message'', v)])\<rparr>)
        \<and> (api_path rq = ''/getOpenJiraIssues''
             \<and> \<not> has_surrogate (py_str (project_id rq))
             \<and> (\<exists>f. urlopen_read env
                       (search_request j (''jql='' @ quote_plus (jql (project_id rq)))) = Inl f)
             \<longrightarrow>
             fst (lambda_handler env ev)
               = Inr \<lparr>statusCode = 200, body = Dumps (PDict [(''message'', PList [])])\<rparr>)
        \<and> (\<forall>w. api_path rq = ''/updateJiraIssue''
             \<and> py_int env (timeline_in_weeks rq) = Inr w
             \<and> \<bar>7 * w\<bar> \<le> 999999999 \<and> 0 < now_ordinal env + 7 * w
             \<and> now_ordinal env + 7 * w \<le> MAXORDINAL
             \<and> (\<exists>f. urlopen_read env
                       (update_request j (issue_key rq)
                          (strftime_ymd (now_ordinal env + 7 * w))) = Inl f) \<longrightarrow>
             fst (lambda_handler env ev)
               = Inr \<lparr>statusCode = 200, body = Dumps (PDict [(''message'', PDict [])])\<rparr>)))"
proof (intro conjI allI impI)
  fix e
  assume "parse_request env ev = Inl e"
  then show "fst (lambda_handler env ev) = Inl e" by (simp add: lambda_handler_parse_fail)
next
  fix rq e
  assume "parse_request env ev = Inr rq" and "fst (JiraInteraction_init env) = Inl e"
  then show "fst (lambda_handler env ev) = Inl e" by (simp add: lambda_handler_init_fail)
next
  fix rq j
  assume p: "parse_request env ev = Inr rq" and i: "fst (JiraInteraction_init env) = Inr j"
  note h = fst_handler [OF p i]
  {
    assume "api_path rq \<notin> set recognized_paths"
    then show "fst (lambda_handler env ev)
          = Inr \<lparr>statusCode = 404,
                 body = Dumps (PDict [(''message'',
                          PStr (''Unrecognized api path: '' @ api_path rq))])\<rparr>"
      by (simp add: h dispatch_unrecognized json_response_def)
  }
  {
    fix resp
    assume r: "api_path rq \<in> set recognized_paths"
      and ret: "fst (lambda_handler env ev) = Inr resp"
    show "statusCode resp = 200"
    proof (cases "fst (dispatch env j rq)")
      case (Inl e)
      with ret h show ?thesis by simp
    next
      case (Inr x)
      from dispatch_recognized_code [OF r Inr] have "fst x = 200" .
      with ret h Inr show ?thesis by (simp add: json_response_code)
    qed
  }
  {
    fix n v
    assume "api_path rq = ''/listRecentInteractions''
             \<and> py_int env (py_opt (count rq)) = Inr n
             \<and> fst (get_recent_customer_interactions env (customer_id rq) n) = Inr v
             \<and> json_serializable v"
    then show "fst (lambda_handler env ev)
               = Inr \<lparr>statusCode = 200, body = Dumps (PDict [(''message'', v)])\<rparr>"
      by (simp add: h dispatch_interactions json_response_def)
  }
  {
    fix v
    assume "api_path rq = ''/getPreferences''
             \<and> fst (get_customer_preferences env (customer_id rq)) = Inr v
             \<and> json_serializable v"
    then show "fst (lambda_handler env ev)
               = Inr \<lparr>statusCode = 200, body = Dumps (PDict [(''message'', v)])\<rparr>"
      by (simp add: h dispatch_preferences json_response_def)
  }
  {
    fix v
    assume "api_path rq = ''/companyOverview''
             \<and> fst (get_customer_overview env (customer_id rq)) = Inr v
             \<and> json_serializable v"
    then show "fst (lambda_handler env ev)
               = Inr \<lparr>statusCode = 200, body = Dumps (PDict [(''message'', v)])\<rparr>"
      by (simp add: h dispatch_overview json_response_def)
  }
  {
    fix ts
    assume "api_path rq = ''/getOpenJiraIssues''
             \<and> fst (get_open_jira_issues env j (project_id rq)) = Inr ts
             \<and> json_serializable (PList ts)"
    then show "fst (lambda_handler env ev)
               = Inr \<lparr>statusCode = 200, body = Dumps (PDict [(''message'', PList ts)])\<rparr>"
      by (simp add: h dispatch_open_issues json_response_def)
  }
  {
    fix w v
    assume a: "api_path rq = ''/updateJiraIssue''
             \<and> py_int env (timeline_in_weeks rq) = Inr w
             \<and> fst (update_jira_issue env j (issue_key rq) w) = Inr v"
    then have "json_serializable v" by (blast intro: update_result_ser)
    with a show "fst (lambda_handler env ev)
               = Inr \<lparr>statusCode = 200, body = Dumps (PDict [(''message'', v)])\<rparr>"
      by (simp add: h dispatch_update json_response_def)
  }
  {
    assume a: "api_path rq = ''/getOpenJiraIssues''
             \<and> \<not> has_surrogate (py_str (project_id rq))
             \<and> (\<exists>f. urlopen_read env
                       (search_request j (''jql='' @ quote_plus (jql (project_id rq)))) = Inl f)"
    then have "fst (get_open_jira_issues env j (project_id rq)) = Inr []"
      by (intro open_issues_swallowed) simp_all
    with a show "fst (lambda_handler env ev)
               = Inr \<lparr>statusCode = 200, body = Dumps (PDict [(''message'', PList [])])\<rparr>"
      by (simp add: h dispatch_open_issues json_response_def)
  }
  {
    fix w
    assume a: "api_path rq = ''/updateJiraIssue''
             \<and> py_int env (timeline_in_weeks rq) = Inr w
             \<and> \<bar>7 * w\<bar> \<le> 999999999 \<and> 0 < now_ordinal env + 7 * w
             \<and> now_ordinal env + 7 * w \<le> MAXORDINAL
             \<and> (\<exists>f. urlopen_read env
                       (update_request j (issue_key rq)
                          (strftime_ymd (now_ordinal env + 7 * w))) = Inl f)"
    then have "fst (update_jira_issue env j (issue_key rq) w) = Inr (PDict [])"
      by (intro update_swallowed) simp_all
    with a show "fst (lambda_handler env ev)
               = Inr \<lparr>statusCode = 200, body = Dumps (PDict [(''message'', PDict [])])\<rparr>"
      by (simp add: h dispatch_update json_response_def)
  }
qed

text \<open>
  Claim C1 as stated fails: a request without a query string carries \<^verbatim>\<open>null\<close> as
  \<^verbatim>\<open>queryStringParameters\<close>, the first \<^verbatim>\<open>.get\<close> raises \<^verbatim>\<open>AttributeError\<close>, and no
  response is returned, whatever the path.
\<close>

theorem lambda_handler_no_query_counterexample:
  "lambda_handler sample_env
     \<lparr>pathParameters = Some [(''proxy'', ''/unknown'')], queryStringParameters = None,
      event_body = None\<rparr>
   = (Inl AttributeError, [])"
  by (simp add: lambda_handler_def parse_request_def bindE_simps bindIO_def pure_io_def)

lemma init_sample:
  "get_secret_value env = sample_secrets \<Longrightarrow> fst (JiraInteraction_init env) = Inr sample_jira"
  unfolding fst_init fst_get_jira_api_key
  by (simp add: sample_secrets_def secret_str_def sample_jira_def py_str_def b64encode_def
      b64_char_def)

theorem lambda_handler_status_witness:
  "parse_request sample_env
      \<lparr>pathParameters = Some [(''proxy'', ''/unknown'')], queryStringParameters = Some [],
       event_body = None\<rparr>
     = Inr \<lparr>api_path = ''/unknown'', customer_id = None, count = None, project_id = None,
            issue_key = None, timeline_in_weeks = PNone\<rparr>
   \<and> fst (JiraInteraction_init sample_env) = Inr sample_jira
   \<and> ''/unknown'' \<notin> set recognized_paths
   \<and> fst (lambda_handler sample_env
        \<lparr>pathParameters = Some [(''proxy'', ''/unknown'')], queryStringParameters = Some [],
         event_body = None\<rparr>)
     = Inr \<lparr>statusCode = 404,
            body = Dumps (PDict [(''message'', PStr ''Unrecognized api path: /unknown'')])\<rparr>
   \<and> fst (get_customer_overview sample_env (Some ''C3'')) = Inr (PDict [])
   \<and> fst (lambda_handler sample_env
        \<lparr>pathParameters = Some [(''proxy'', ''/companyOverview'')],
         queryStringParameters = Some [(''customerId'', ''C3'')], event_body = None\<rparr>)
     = Inr \<lparr>statusCode = 200, body = Dumps (PDict [(''message'', PDict [])])\<rparr>
   \<and> fst (lambda_handler (sample_env\<lparr>urlopen_read := down_tracker\<rparr>)
        \<lparr>pathParameters = Some [(''proxy'', ''/getOpenJiraIssues'')],
         queryStringParameters = Some [(''projectId'', ''P1'')], event_body = None\<rparr>)
     = Inr \<lparr>statusCode = 200, body = Dumps (PDict [(''message'', PList [])])\<rparr>"
proof -
  define ev where "ev = \<lparr>pathParameters = Some [(''proxy'', ''/unknown'')],
      queryStringParameters = Some [], event_body = None\<rparr>"
  define rq where "rq = \<lparr>api_path = ''/unknown'', customer_id = None, count = None,
      project_id = None, issue_key = None, timeline_in_weeks = PNone\<rparr>"
  define evo where "evo = \<lparr>pathParameters = Some [(''proxy'', ''/companyOverview'')],
      queryStringParameters = Some [(''customerId'', ''C3'')], event_body = None\<rparr>"
  define rqo where "rqo = \<lparr>api_path = ''/companyOverview'', customer_id = Some ''C3'',
      count = None, project_id = None, issue_key = None, timeline_in_weeks = PNone\<rparr>"
  define down where "down = sample_env\<lparr>urlopen_read := down_tracker\<rparr>"
  define ev' where "ev' = \<lparr>pathParameters = Some [(''proxy'', ''/getOpenJiraIssues'')],
      queryStringParameters = Some [(''projectId'', ''P1'')], event_body = None\<rparr>"
  define rq' where "rq' = \<lparr>api_path = ''/getOpenJiraIssues'', customer_id = None, count = None,
      project_id = Some ''P1'', issue_key = None, timeline_in_weeks = PNone\<rparr>"
  have p: "parse_request sample_env ev = Inr rq"
    by (simp add: parse_request_def bindE_simps ev_def rq_def)
  have i: "fst (JiraInteraction_init sample_env) = Inr sample_jira"
    by (rule init_sample) (simp add: sample_env_def)
  have u: "api_path rq \<notin> set recognized_paths"
    by (simp add: rq_def recognized_paths_def)
  have po: "parse_request sample_env evo = Inr rqo"
    by (simp add: parse_request_def bindE_simps evo_def rqo_def)
  have ov: "fst (get_customer_overview sample_env (Some ''C3'')) = Inr (PDict [])"
    by (simp add: get_customer_overview_def get_customer_details_def fst_bindIO pure_io_simps
        sample_env_def store_get_item_def sample_customers_def)
  have o: "api_path rqo = ''/companyOverview''
      \<and> fst (get_customer_overview sample_env (customer_id rqo)) = Inr (PDict [])
      \<and> json_serializable (PDict [])"
    using ov by (simp add: rqo_def)
  have p': "parse_request down ev' = Inr rq'"
    by (simp add: parse_request_def bindE_simps ev'_def rq'_def)
  have i': "fst (JiraInteraction_init down) = Inr sample_jira"
    by (rule init_sample) (simp add: sample_env_def down_def)
  have d: "api_path rq' = ''/getOpenJiraIssues''
      \<and> \<not> has_surrogate (py_str (project_id rq'))
      \<and> (\<exists>f. urlopen_read down
                (search_request sample_jira (''jql='' @ quote_plus (jql (project_id rq'))))
              = Inl f)"
    using has_surrogate_samples(1) by (simp add: rq'_def down_def down_tracker_def)
  note t = lambda_handler_status [of sample_env ev, THEN conjunct2, rule_format, OF p,
      THEN conjunct2, rule_format, OF i]
  note t_o = lambda_handler_status [of sample_env evo, THEN conjunct2, rule_format, OF po,
      THEN conjunct2, rule_format, OF i]
  note t' = lambda_handler_status [of down ev', THEN conjunct2, rule_format, OF p',
      THEN conjunct2, rule_format, OF i']
  from t [THEN conjunct1, rule_format, OF u]
  have a: "fst (lambda_handler sample_env ev)
     = Inr \<lparr>statusCode = 404,
            body = Dumps (PDict [(''message'', PStr ''Unrecognized api path: /unknown'')])\<rparr>"
    by (simp add: rq_def)
  from t_o [THEN conjunct2, THEN conjunct2, THEN conjunct2, THEN conjunct2, THEN conjunct1,
      rule_format, OF o]
  have b: "fst (lambda_handler sample_env evo)
     = Inr \<lparr>statusCode = 200, body = Dumps (PDict [(''message'', PDict [])])\<rparr>" .
  from t' [THEN conjunct2, THEN conjunct2, THEN conjunct2, THEN conjunct2, THEN conjunct2,
      THEN conjunct2, THEN conjunct2, THEN conjunct1, rule_format, OF d]
  have c: "fst (lambda_handler down ev')
     = Inr \<lparr>statusCode = 200, body = Dumps (PDict [(''message'', PList [])])\<rparr>" .
  from p i u a ov b c show ?thesis
    unfolding ev_def rq_def evo_def down_def ev'_def by simp
qed

subsection \<open>The handler: what raises\<close>

lemma json_ser_getitem:
  "json_serializable v \<Longrightarrow> py_getitem v k = Inr x \<Longrightarrow> json_serializable x"
proof (cases v)
  case (PDict kvs)
  assume s: "json_serializable v" and g: "py_getitem v k = Inr x"
  from g PDict have "map_of kvs k = Some x" by (simp split: option.splits)
  then have "(k, x) \<in> set kvs" by (rule map_of_SomeD)
  with s PDict show ?thesis by (auto simp: list_all_iff)
qed simp_all

lemma json_ser_iter:
  "json_serializable v \<Longrightarrow> py_iter v = Inr xs \<Longrightarrow> list_all json_serializable xs"
  by (cases v) (auto simp: list_all_iff)

lemma issue_task_ser:
  assumes "json_serializable issue" and "issue_task issue = Inr t"
  shows "json_serializable t"
proof -
  note g = json_ser_getitem
  from assms(2) obtain key f1 summary f2 s status f3 p project f4 duedate f5 a assignee where
    "py_getitem issue ''key'' = Inr key"
    "py_getitem issue ''fields'' = Inr f1" "py_getitem f1 ''summary'' = Inr summary"
    "py_getitem issue ''fields'' = Inr f2" "py_getitem f2 ''status'' = Inr s"
    "py_getitem s ''name'' = Inr status"
    "py_getitem issue ''fields'' = Inr f3" "py_getitem f3 ''project'' = Inr p"
    "py_getitem p ''name'' = Inr project"
    "py_getitem issue ''fields'' = Inr f4" "py_getitem f4 ''duedate'' = Inr duedate"
    "py_getitem issue ''fields'' = Inr f5" "py_getitem f5 ''assignee'' = Inr a"
    "(if py_truthy a then py_getitem a ''displayName'' else Inr (PStr ''None'')) = Inr assignee"
    "t = PDict [(''issueKey'', key), (''summary'', summary), (''status'', status),
                (''project'', project), (''duedate'', duedate), (''assignee'', assignee)]"
    unfolding issue_task_def bindE_Inr_iff by blast
  moreover from this assms(1) have "json_serializable key" "json_serializable summary"
    "json_serializable status" "json_serializable project" "json_serializable duedate"
    "json_serializable a"
    by (blast intro: g)+
  moreover from calculation have "json_serializable assignee"
    by (auto split: if_splits intro: g)
  ultimately show ?thesis by simp
qed

lemma build_tasks_ser:
  "list_all json_serializable xs \<Longrightarrow> list_all json_serializable acc
     \<Longrightarrow> build_tasks xs acc = Inr ts \<Longrightarrow> list_all json_serializable ts"
proof (induction xs arbitrary: acc)
  case Nil
  then show ?case by simp
next
  case (Cons x xs)
  from Cons.prems(3) obtain t where t: "issue_task x = Inr t"
    and r: "build_tasks xs (acc @ [t]) = Inr ts"
    by (auto split: sum.splits)
  from Cons.prems(1) t have "json_serializable t" by (auto intro: issue_task_ser)
  with Cons.prems have "list_all json_serializable (acc @ [t])" by simp
  with Cons.IH [OF _ _ r] Cons.prems(1) show ?case by simp
qed

lemma open_issues_ser:
  assumes "json_env env" and "\<not> has_surrogate (py_str pid)"
  shows "\<exists>ts. fst (get_open_jira_issues env j pid) = Inr ts \<and> json_serializable (PList ts)"
proof -
  have p: "parse_issues v = Inr ts \<Longrightarrow> json_serializable v \<Longrightarrow> list_all json_serializable ts"
    for v ts
  proof -
    assume r: "parse_issues v = Inr ts" and s: "json_serializable v"
    from r obtain issues xs where i: "py_getitem v ''issues'' = Inr issues"
      and x: "py_iter issues = Inr xs" and b: "build_tasks xs [] = Inr ts"
      unfolding parse_issues_def bindE_Inr_iff by blast
    from s i have "json_serializable issues" by (rule json_ser_getitem)
    then have "list_all json_serializable xs" using x by (rule json_ser_iter)
    then show "list_all json_serializable ts" using _ b by (rule build_tasks_ser) simp
  qed
  note cases = get_open_jira_issues_cases [OF assms(2), of env j]
  show ?thesis
  proof (cases "urlopen_read env (search_request j (''jql='' @ quote_plus (jql pid)))")
    case (Inl f)
    then show ?thesis by (simp add: cases)
  next
    case (Inr data)
    show ?thesis
    proof (cases "json_loads env data")
      case None
      with Inr show ?thesis by (simp add: cases)
    next
      case (Some v)
      with assms have "json_serializable v" by (simp add: json_env_def)
      with Inr Some p [of v] show ?thesis
        by (cases "parse_issues v") (simp_all add: cases)
    qed
  qed
qed

lemma fst_details:
  "fst (get_customer_details env c args) =
     (case get_item env c (join_comma args) of
        Inl e \<Rightarrow> Inl e
      | Inr response \<Rightarrow> py_get (PDict response) ''Item'')"
  by (simp add: get_customer_details_def)

lemma preferences_raise:
  "get_item env c ''meetingType,timeofDay,dayOfWeek'' = Inl e
     \<Longrightarrow> fst (get_customer_preferences env c) = Inl e"
  by (simp add: get_customer_preferences_def fst_bindIO fst_details)

lemma overview_raise:
  "get_item env c ''overview'' = Inl e \<Longrightarrow> fst (get_customer_overview env c) = Inl e"
  by (simp add: get_customer_overview_def fst_bindIO fst_details)

lemma interactions_raise:
  "query env False n c ''#interaction_date,notes'' [(''#interaction_date'', ''date'')] = Inl e
     \<Longrightarrow> fst (get_recent_customer_interactions env c n) = Inl e"
  by (simp add: get_recent_customer_interactions_def)

lemma update_overflow:
  "\<not> (\<bar>7 * w\<bar> \<le> 999999999 \<and> 0 < now_ordinal env + 7 * w \<and> now_ordinal env + 7 * w \<le> MAXORDINAL)
     \<Longrightarrow> fst (update_jira_issue env j key w) = Inl OverflowError"
  by (simp add: update_jira_issue_def due_out_of_range)

lemma preferences_value:
  "get_item env c ''meetingType,timeofDay,dayOfWeek'' = Inr response
     \<Longrightarrow> fst (get_customer_preferences env c)
          = Inr (case map_of response ''Item'' of None \<Rightarrow> PNone | Some item \<Rightarrow> item)"
  by (simp add: get_customer_preferences_def fst_bindIO fst_details pure_io_simps
      split: option.splits)

lemma overview_value:
  "get_item env c ''overview'' = Inr response
     \<Longrightarrow> fst (get_customer_overview env c)
          = (if py_truthy (case map_of response ''Item'' of None \<Rightarrow> PNone | Some item \<Rightarrow> item)
             then py_getitem (case map_of response ''Item'' of None \<Rightarrow> PNone | Some item \<Rightarrow> item)
                    ''overview''
             else Inr (PDict []))"
  by (simp add: get_customer_overview_def fst_bindIO fst_details pure_io_simps
      split: option.splits)

lemma interactions_value:
  "query env False n c ''#interaction_date,notes'' [(''#interaction_date'', ''date'')] = Inr response
     \<Longrightarrow> fst (get_recent_customer_interactions env c n)
          = (case map_of response ''Items'' of None \<Rightarrow> Inl (KeyError ''Items'') | Some v \<Rightarrow> Inr v)"
  by (simp add: get_recent_customer_interactions_def)

text \<open>
  Claim C2, as amended. For every request with a recognized path that is parsed and for which
  the tracker client is constructed, the router returns a response with status 200 unless one
  of the following raises, and then that exception is the invocation's:
  \<^item> the customer store's call (its failure propagates uncaught), the subscript of a reply
    without \<^verbatim>\<open>Items\<close> or of a record without \<open>overview\<close>, and \<^verbatim>\<open>json.dumps\<close> on a value of the
    store that it cannot write;
  \<^item> the router's own conversions \<^verbatim>\<open>int(count)\<close> and \<^verbatim>\<open>int(timelineInWeeks)\<close> on a value that
    is absent or not a number;
  \<^item> \<^verbatim>\<open>urlencode\<close> on a project id that holds a lone surrogate, and the due date's arithmetic
    on a date that cannot be represented.

  A failure of the tracker's HTTP call never propagates: with an encodable project id an
  open-issues request always returns, and with a representable due date an update request
  always returns.
\<close>

theorem lambda_handler_raises:
  "\<forall>rq j. parse_request env ev = Inr rq \<and> fst (JiraInteraction_init env) = Inr j \<longrightarrow>
     (\<forall>e. api_path rq = ''/getPreferences''
        \<and> get_item env (customer_id rq) ''meetingType,timeofDay,dayOfWeek'' = Inl e \<longrightarrow>
        fst (lambda_handler env ev) = Inl e)
   \<and> (\<forall>response v. api_path rq = ''/getPreferences''
        \<and> get_item env (customer_id rq) ''meetingType,timeofDay,dayOfWeek'' = Inr response
        \<and> v = (case map_of response ''Item'' of None \<Rightarrow> PNone | Some item \<Rightarrow> item) \<longrightarrow>
        fst (lambda_handler env ev)
          = (if json_serializable v
             then Inr \<lparr>statusCode = 200, body = Dumps (PDict [(''message'', v)])\<rparr>
             else Inl TypeError))
   \<and> (\<forall>e. api_path rq = ''/companyOverview''
        \<and> get_item env (customer_id rq) ''overview'' = Inl e \<longrightarrow>
        fst (lambda_handler env ev) = Inl e)
   \<and> (\<forall>response item. api_path rq = ''/companyOverview''
        \<and> get_item env (customer_id rq) ''overview'' = Inr response
        \<and> item = (case map_of response ''Item'' of None \<Rightarrow> PNone | Some x \<Rightarrow> x) \<longrightarrow>
        (\<not> py_truthy item \<longrightarrow>
           fst (lambda_handler env ev)
             = Inr \<lparr>statusCode = 200, body = Dumps (PDict [(''message'', PDict [])])\<rparr>)
      \<and> (\<forall>v. py_truthy item \<and> py_getitem item ''overview'' = Inr v \<longrightarrow>
           fst (lambda_handler env ev)
             = (if json_serializable v
                then Inr \<lparr>statusCode = 200, body = Dumps (PDict [(''message'', v)])\<rparr>
                else Inl TypeError))
      \<and> (\<forall>e. py_truthy item \<and> py_getitem item ''overview'' = Inl e \<longrightarrow>
           fst (lambda_handler env ev) = Inl e))
   \<and> (\<forall>e. api_path rq = ''/listRecentInteractions'' \<and> py_int env (py_opt (count rq)) = Inl e \<longrightarrow>
        fst (lambda_handler env ev) = Inl e)
   \<and> (\<forall>n e. api_path rq = ''/listRecentInteractions'' \<and> py_int env (py_opt (count rq)) = Inr n
        \<and> query env False n (customer_id rq) ''#interaction_date,notes''
             [(''#interaction_date'', ''date'')] = Inl e \<longrightarrow>
        fst (lambda_handler env ev) = Inl e)
   \<and> (\<forall>n response. api_path rq = ''/listRecentInteractions''
        \<and> py_int env (py_opt (count rq)) = Inr n
        \<and> query env False n (customer_id rq) ''#interaction_date,notes''
             [(''#interaction_date'', ''date'')] = Inr response \<longrightarrow>
        fst (lambda_handler env ev)
          = (case map_of response ''Items'' of
               None \<Rightarrow> Inl (KeyError ''Items'')
             | Some v \<Rightarrow>
                 if json_serializable v
                 then Inr \<lparr>statusCode = 200, body = Dumps (PDict [(''message'', v)])\<rparr>
                 else Inl TypeError))
   \<and> (api_path rq = ''/getOpenJiraIssues'' \<and> \<not> has_surrogate (py_str (project_id rq))
        \<and> json_env env \<longrightarrow>
        (\<exists>ts. fst (lambda_handler env ev)
           = Inr \<lparr>statusCode = 200, body = Dumps (PDict [(''message'', PList ts)])\<rparr>))
   \<and> (api_path rq = ''/getOpenJiraIssues'' \<and> has_surrogate (py_str (project_id rq)) \<longrightarrow>
        fst (lambda_handler env ev) = Inl UnicodeEncodeError)
   \<and> (\<forall>w. api_path rq = ''/updateJiraIssue'' \<and> py_int env (timeline_in_weeks rq) = Inr w
        \<and> \<bar>7 * w\<bar> \<le> 999999999 \<and> 0 < now_ordinal env + 7 * w
        \<and> now_ordinal env + 7 * w \<le> MAXORDINAL \<longrightarrow>
        (\<exists>v. fst (lambda_handler env ev)
           = Inr \<lparr>statusCode = 200, body = Dumps (PDict [(''message'', v)])\<rparr>))
   \<and> (\<forall>w. api_path rq = ''/updateJiraIssue'' \<and> py_int env (timeline_in_weeks rq) = Inr w
        \<and> \<not> (\<bar>7 * w\<bar> \<le> 999999999 \<and> 0 < now_ordinal env + 7 * w
              \<and> now_ordinal env + 7 * w \<le> MAXORDINAL) \<longrightarrow>
        fst (lambda_handler env ev) = Inl OverflowError)
   \<and> (\<forall>e. api_path rq = ''/updateJiraIssue'' \<and> py_int env (timeline_in_weeks rq) = Inl e \<longrightarrow>
        fst (lambda_handler env ev) = Inl e)"
proof (intro allI impI, elim conjE, intro conjI impI allI)
  fix rq j
  assume p: "parse_request env ev = Inr rq" and i: "fst (JiraInteraction_init env) = Inr j"
  note h = fst_handler [OF p i]
  {
    fix e
    assume "api_path rq = ''/getPreferences''
        \<and> get_item env (customer_id rq) ''meetingType,timeofDay,dayOfWeek'' = Inl e"
    then show "fst (lambda_handler env ev) = Inl e"
      by (simp add: h dispatch_preferences preferences_raise)
  }
  {
    fix response v
    assume "api_path rq = ''/getPreferences''
        \<and> get_item env (customer_id rq) ''meetingType,timeofDay,dayOfWeek'' = Inr response
        \<and> v = (case map_of response ''Item'' of None \<Rightarrow> PNone | Some item \<Rightarrow> item)"
    then show "fst (lambda_handler env ev)
          = (if json_serializable v
             then Inr \<lparr>statusCode = 200, body = Dumps (PDict [(''message'', v)])\<rparr>
             else Inl TypeError)"
      by (simp add: h dispatch_preferences preferences_value json_response_def)
  }
  {
    fix e
    assume "api_path rq = ''/companyOverview''
        \<and> get_item env (customer_id rq) ''overview'' = Inl e"
    then show "fst (lambda_handler env ev) = Inl e"
      by (simp add: h dispatch_overview overview_raise)
  }
  {
    fix response item
    assume a: "api_path rq = ''/companyOverview''
        \<and> get_item env (customer_id rq) ''overview'' = Inr response
        \<and> item = (case map_of response ''Item'' of None \<Rightarrow> PNone | Some x \<Rightarrow> x)"
    then have o: "fst (get_customer_overview env (customer_id rq))
        = (if py_truthy item then py_getitem item ''overview'' else Inr (PDict []))"
      by (simp add: overview_value)
    {
      assume "\<not> py_truthy item"
      with a o show "fst (lambda_handler env ev)
             = Inr \<lparr>statusCode = 200, body = Dumps (PDict [(''message'', PDict [])])\<rparr>"
        by (simp add: h dispatch_overview json_response_def)
    }
    {
      fix v
      assume "py_truthy item \<and> py_getitem item ''overview'' = Inr v"
      with a o show "fst (lambda_handler env ev)
             = (if json_serializable v
                then Inr \<lparr>statusCode = 200, body = Dumps (PDict [(''message'', v)])\<rparr>
                else Inl TypeError)"
        by (simp add: h dispatch_overview json_response_def)
    }
    {
      fix e
      assume "py_truthy item \<and> py_getitem item ''overview'' = Inl e"
      with a o show "fst (lambda_handler env ev) = Inl e"
        by (simp add: h dispatch_overview)
    }
  }
  {
    fix e
    assume "api_path rq = ''/listRecentInteractions'' \<and> py_int env (py_opt (count rq)) = Inl e"
    then show "fst (lambda_handler env ev) = Inl e"
      by (simp add: h dispatch_interactions)
  }
  {
    fix n e
    assume "api_path rq = ''/listRecentInteractions'' \<and> py_int env (py_opt (count rq)) = Inr n
        \<and> query env False n (customer_id rq) ''#interaction_date,notes''
             [(''#interaction_date'', ''date'')] = Inl e"
    then show "fst (lambda_handler env ev) = Inl e"
      by (simp add: h dispatch_interactions interactions_raise)
  }
  {
    fix n response
    assume "api_path rq = ''/listRecentInteractions''
        \<and> py_int env (py_opt (count rq)) = Inr n
        \<and> query env False n (customer_id rq) ''#interaction_date,notes''
             [(''#interaction_date'', ''date'')] = Inr response"
    then show "fst (lambda_handler env ev)
          = (case map_of response ''Items'' of
               None \<Rightarrow> Inl (KeyError ''Items'')
             | Some v \<Rightarrow>
                 if json_serializable v
                 then Inr \<lparr>statusCode = 200, body = Dumps (PDict [(''message'', v)])\<rparr>
                 else Inl TypeError)"
      by (simp add: h dispatch_interactions interactions_value json_response_def
          split: option.splits)
  }
  {
    assume a: "api_path rq = ''/getOpenJiraIssues'' \<and> \<not> has_surrogate (py_str (project_id rq))
        \<and> json_env env"
    then have "\<exists>ts. fst (get_open_jira_issues env j (project_id rq)) = Inr ts
        \<and> json_serializable (PList ts)"
      by (intro open_issues_ser) simp_all
    then obtain ts where "fst (get_open_jira_issues env j (project_id rq)) = Inr ts"
      "json_serializable (PList ts)" by blast
    with a have "fst (lambda_handler env ev)
           = Inr \<lparr>statusCode = 200, body = Dumps (PDict [(''message'', PList ts)])\<rparr>"
      by (simp add: h dispatch_open_issues json_response_def)
    then show "\<exists>ts. fst (lambda_handler env ev)
           = Inr \<lparr>statusCode = 200, body = Dumps (PDict [(''message'', PList ts)])\<rparr>" ..
  }
  {
    assume a: "api_path rq = ''/getOpenJiraIssues'' \<and> has_surrogate (py_str (project_id rq))"
    then have "get_open_jira_issues env j (project_id rq) = (Inl UnicodeEncodeError, [])"
      by (intro get_open_jira_issues_unencodable) simp
    with a show "fst (lambda_handler env ev) = Inl UnicodeEncodeError"
      by (simp add: h dispatch_open_issues)
  }
  {
    fix w
    assume a: "api_path rq = ''/updateJiraIssue'' \<and> py_int env (timeline_in_weeks rq) = Inr w
        \<and> \<bar>7 * w\<bar> \<le> 999999999 \<and> 0 < now_ordinal env + 7 * w
        \<and> now_ordinal env + 7 * w \<le> MAXORDINAL"
    then have "\<exists>v. fst (update_jira_issue env j (issue_key rq) w) = Inr v \<and> json_serializable v"
      by (intro update_returns) simp
    then obtain v where "fst (update_jira_issue env j (issue_key rq) w) = Inr v"
      "json_serializable v" by blast
    with a have "fst (lambda_handler env ev)
           = Inr \<lparr>statusCode = 200, body = Dumps (PDict [(''message'', v)])\<rparr>"
      by (simp add: h dispatch_update json_response_def)
    then show "\<exists>v. fst (lambda_handler env ev)
           = Inr \<lparr>statusCode = 200, body = Dumps (PDict [(''message'', v)])\<rparr>" ..
  }
  {
    fix w
    assume a: "api_path rq = ''/updateJiraIssue'' \<and> py_int env (timeline_in_weeks rq) = Inr w
        \<and> \<not> (\<bar>7 * w\<bar> \<le> 999999999 \<and> 0 < now_ordinal env + 7 * w
              \<and> now_ordinal env + 7 * w \<le> MAXORDINAL)"
    then have "fst (update_jira_issue env j (issue_key rq) w) = Inl OverflowError"
      by (intro update_overflow) simp
    with a show "fst (lambda_handler env ev) = Inl OverflowError"
      by (simp add: h dispatch_update)
  }
  {
    fix e
    assume "api_path rq = ''/updateJiraIssue'' \<and> py_int env (timeline_in_weeks rq) = Inl e"
    then show "fst (lambda_handler env ev) = Inl e"
      by (simp add: h dispatch_update)
  }
qed

lemma snd_init_sample:
  "get_secret_value env = sample_secrets \<Longrightarrow> snd (JiraInteraction_init env) =
     [SecretsGet ''JIRA_URL'', SecretsGet ''JIRA_API_KEY_ARN'', SecretsGet ''JIRA_USER_NAME'',
      SecretsGet ''arn:jira-key'']"
  by (simp add: JiraInteraction_init_def snd_bindIO fst_bindIO fst_get_secret snd_get_secret
      fst_get_jira_api_key snd_get_jira_api_key sample_secrets_def pure_io_simps Let_def)

text \<open>
  Claim C2 as stated fails: a request for \<^verbatim>\<open>/listRecentInteractions\<close> without \<^verbatim>\<open>count\<close>
  makes the router evaluate \<^verbatim>\<open>int(None)\<close>, which raises \<^verbatim>\<open>TypeError\<close> before the store is
  called.
\<close>

theorem lambda_handler_missing_count_counterexample:
  "lambda_handler sample_env
     \<lparr>pathParameters = Some [(''proxy'', ''/listRecentInteractions'')],
      queryStringParameters = Some [(''customerId'', ''C1'')], event_body = None\<rparr>
   = (Inl TypeError,
      [SecretsGet ''JIRA_URL'', SecretsGet ''JIRA_API_KEY_ARN'', SecretsGet ''JIRA_USER_NAME'',
       SecretsGet ''arn:jira-key''])"
proof -
  define ev where "ev = \<lparr>pathParameters = Some [(''proxy'', ''/listRecentInteractions'')],
      queryStringParameters = Some [(''customerId'', ''C1'')], event_body = None\<rparr>"
  define rq where "rq = \<lparr>api_path = ''/listRecentInteractions'', customer_id = Some ''C1'',
      count = None, project_id = None, issue_key = None, timeline_in_weeks = PNone\<rparr>"
  have p: "parse_request sample_env ev = Inr rq"
    by (simp add: parse_request_def bindE_simps ev_def rq_def)
  have i: "fst (JiraInteraction_init sample_env) = Inr sample_jira"
    by (rule init_sample) (simp add: sample_env_def)
  have s: "snd (JiraInteraction_init sample_env) =
     [SecretsGet ''JIRA_URL'', SecretsGet ''JIRA_API_KEY_ARN'', SecretsGet ''JIRA_USER_NAME'',
      SecretsGet ''arn:jira-key'']"
    by (rule snd_init_sample) (simp add: sample_env_def)
  have d: "dispatch sample_env sample_jira rq = (Inl TypeError, [])"
    by (simp add: dispatch_def rq_def py_opt_def bindIO_def pure_io_def)
  show ?thesis
    unfolding ev_def [symmetric] by (simp add: lambda_handler_dispatch [OF p i] d s)
qed

lemma json_env_sample: "json_loads env = sample_json_loads \<Longrightarrow> json_env env"
  by (auto simp: json_env_def sample_json_loads_def sample_issues_def spec_issue_reply_def
      py_opt_def split: if_splits)

theorem lambda_handler_raises_witness:
  "(\<exists>ts. fst (lambda_handler sample_env
        \<lparr>pathParameters = Some [(''proxy'', ''/getOpenJiraIssues'')],
         queryStringParameters = Some [(''projectId'', ''P1'')], event_body = None\<rparr>)
      = Inr \<lparr>statusCode = 200, body = Dumps (PDict [(''message'', PList ts)])\<rparr>)
   \<and> get_item sample_env None ''meetingType,timeofDay,dayOfWeek''
       = Inl (ServiceError ''ValidationException'')
   \<and> fst (lambda_handler sample_env
        \<lparr>pathParameters = Some [(''proxy'', ''/getPreferences'')],
         queryStringParameters = Some [], event_body = None\<rparr>)
       = Inl (ServiceError ''ValidationException'')
   \<and> fst (lambda_handler sample_env
        \<lparr>pathParameters = Some [(''proxy'', ''/getPreferences'')],
         queryStringParameters = Some [(''customerId'', ''C2'')], event_body = None\<rparr>)
       = Inr \<lparr>statusCode = 200,
              body = Dumps (PDict [(''message'', PDict [(''meetingType'', PStr ''phone'')])])\<rparr>
   \<and> fst (lambda_handler sample_env
        \<lparr>pathParameters = Some [(''proxy'', ''/updateJiraIssue'')],
         queryStringParameters = Some [(''issueKey'', ''CRM-7'')],
         event_body = Some ''{\"timelineInWeeks\": 1000000}''\<rparr>)
       = Inl OverflowError"
proof -
  define ev1 where "ev1 = \<lparr>pathParameters = Some [(''proxy'', ''/getOpenJiraIssues'')],
         queryStringParameters = Some [(''projectId'', ''P1'')], event_body = None\<rparr>"
  define rq1 where "rq1 = \<lparr>api_path = ''/getOpenJiraIssues'', customer_id = None, count = None,
      project_id = Some ''P1'', issue_key = None, timeline_in_weeks = PNone\<rparr>"
  define ev2 where "ev2 = \<lparr>pathParameters = Some [(''proxy'', ''/getPreferences'')],
         queryStringParameters = Some [], event_body = None\<rparr>"
  define rq2 where "rq2 = \<lparr>api_path = ''/getPreferences'', customer_id = None, count = None,
      project_id = None, issue_key = None, timeline_in_weeks = PNone\<rparr>"
  define ev3 where "ev3 = \<lparr>pathParameters = Some [(''proxy'', ''/updateJiraIssue'')],
         queryStringParameters = Some [(''issueKey'', ''CRM-7'')],
         event_body = Some ''{\"timelineInWeeks\": 1000000}''\<rparr>"
  define rq3 where "rq3 = \<lparr>api_path = ''/updateJiraIssue'', customer_id = None, count = None,
      project_id = None, issue_key = Some ''CRM-7'', timeline_in_weeks = PInt 1000000\<rparr>"
  define ev4 where "ev4 = \<lparr>pathParameters = Some [(''proxy'', ''/getPreferences'')],
         queryStringParameters = Some [(''customerId'', ''C2'')], event_body = None\<rparr>"
  define rq4 where "rq4 = \<lparr>api_path = ''/getPreferences'', customer_id = Some ''C2'',
      count = None, project_id = None, issue_key = None, timeline_in_weeks = PNone\<rparr>"
  define reply where "reply = [(''Item'', PDict [(''meetingType'', PStr ''phone'')]),
      (''ResponseMetadata'', PDict [])]"
  have i: "fst (JiraInteraction_init sample_env) = Inr sample_jira"
    by (rule init_sample) (simp add: sample_env_def)
  have p1: "parse_request sample_env ev1 = Inr rq1"
    by (simp add: parse_request_def bindE_simps ev1_def rq1_def)
  have p2: "parse_request sample_env ev2 = Inr rq2"
    by (simp add: parse_request_def bindE_simps ev2_def rq2_def)
  have p3: "parse_request sample_env ev3 = Inr rq3"
    by (simp add: parse_request_def bindE_simps ev3_def rq3_def sample_env_def
        sample_json_loads_def)
  have p4: "parse_request sample_env ev4 = Inr rq4"
    by (simp add: parse_request_def bindE_simps ev4_def rq4_def)
  have j: "api_path rq1 = ''/getOpenJiraIssues'' \<and> \<not> has_surrogate (py_str (project_id rq1))
      \<and> json_env sample_env"
    using has_surrogate_samples(1) by (simp add: rq1_def json_env_sample sample_env_def)
  have g: "get_item sample_env None ''meetingType,timeofDay,dayOfWeek''
       = Inl (ServiceError ''ValidationException'')"
    by (simp add: sample_env_def store_get_item_def)
  have g': "api_path rq2 = ''/getPreferences''
       \<and> get_item sample_env (customer_id rq2) ''meetingType,timeofDay,dayOfWeek''
          = Inl (ServiceError ''ValidationException'')"
    using g by (simp add: rq2_def)
  have g4: "api_path rq4 = ''/getPreferences''
       \<and> get_item sample_env (customer_id rq4) ''meetingType,timeofDay,dayOfWeek'' = Inr reply
       \<and> PDict [(''meetingType'', PStr ''phone'')]
          = (case map_of reply ''Item'' of None \<Rightarrow> PNone | Some item \<Rightarrow> item)"
    by (simp add: rq4_def reply_def sample_env_def store_get_item_def sample_customers_def
        names_preferences project_item_def)
  have o: "api_path rq3 = ''/updateJiraIssue'' \<and> py_int sample_env (timeline_in_weeks rq3) = Inr 1000000
        \<and> \<not> (\<bar>7 * (1000000::int)\<bar> \<le> 999999999 \<and> 0 < now_ordinal sample_env + 7 * 1000000
              \<and> now_ordinal sample_env + 7 * 1000000 \<le> MAXORDINAL)"
    by (simp add: rq3_def sample_env_def MAXORDINAL_def)
  note t1 = lambda_handler_raises [of sample_env ev1, rule_format, OF conjI [OF p1 i]]
  note t2 = lambda_handler_raises [of sample_env ev2, rule_format, OF conjI [OF p2 i]]
  note t3 = lambda_handler_raises [of sample_env ev3, rule_format, OF conjI [OF p3 i]]
  note t4 = lambda_handler_raises [of sample_env ev4, rule_format, OF conjI [OF p4 i]]
  from t1 [THEN conjunct2, THEN conjunct2, THEN conjunct2, THEN conjunct2, THEN conjunct2,
      THEN conjunct2, THEN conjunct2, THEN conjunct1, rule_format, OF j]
  have a: "\<exists>ts. fst (lambda_handler sample_env ev1)
      = Inr \<lparr>statusCode = 200, body = Dumps (PDict [(''message'', PList ts)])\<rparr>" .
  from t2 [THEN conjunct1, rule_format, OF g']
  have b: "fst (lambda_handler sample_env ev2) = Inl (ServiceError ''ValidationException'')" .
  from t4 [THEN conjunct2, THEN conjunct1, rule_format, OF g4]
  have b4: "fst (lambda_handler sample_env ev4)
      = Inr \<lparr>statusCode = 200,
              body = Dumps (PDict [(''message'', PDict [(''meetingType'', PStr ''phone'')])])\<rparr>"
    by simp
  from t3 [THEN conjunct2, THEN conjunct2, THEN conjunct2, THEN conjunct2, THEN conjunct2,
      THEN conjunct2, THEN conjunct2, THEN conjunct2, THEN conjunct2, THEN conjunct2,
      THEN conjunct1, rule_format, OF o]
  have c: "fst (lambda_handler sample_env ev3) = Inl OverflowError" .
  from a g b b4 c show ?thesis unfolding ev1_def ev2_def ev3_def ev4_def by simp
qed

end
